theory Spec2Isabelle
  imports Complex_Main "HOL-Library.Word"
begin

unbundle bit_operations_syntax

section \<open>JavaScript values\<close>

text \<open>
  The scripts are TypeScript run by Hardhat. A JavaScript string is modelled as a
  \<^typ>\<open>string\<close> holding its UTF-8 bytes, the form in which the values of
  \<open>process.env\<close> reach the process and in which the source files hold their literals;
  a code point beyond ASCII is the two to four bytes of its encoding (a lone surrogate,
  the three bytes of its generalised encoding). An exception is a value of \<open>error\<close> on
  the left of a sum. \<open>process.env\<close> is a partial map from names to strings.
\<close>

datatype error = Error string | TypeError string

type_synonym env = "string \<Rightarrow> string option"

text \<open>
  Sequencing of steps that may throw: the first \<open>Inl\<close> ends the sequence, as the first
  exception leaves the enclosing block.
\<close>

definition andThen :: "error + 'a \<Rightarrow> ('a \<Rightarrow> error + 'b) \<Rightarrow> error + 'b" where
  "andThen r f = (case r of Inl e \<Rightarrow> Inl e | Inr v \<Rightarrow> f v)"

text \<open>\<open>a ?? b\<close> on a possibly undefined string.\<close>

definition nullish :: "string option \<Rightarrow> string \<Rightarrow> string" where
  "nullish a b = (case a of None \<Rightarrow> b | Some v \<Rightarrow> v)"

text \<open>\<open>a || b\<close> on a possibly undefined string: the empty string is falsy.\<close>

definition or_else :: "string option \<Rightarrow> string \<Rightarrow> string" where
  "or_else a b = (case a of None \<Rightarrow> b | Some v \<Rightarrow> if v = [] then b else v)"

text \<open>
  \<open>String.prototype.trim\<close> removes white space and line terminators from both ends.
  These are the code points U+0009 to U+000D, U+0020, U+00A0, U+1680, U+2000 to U+200A,
  U+2028, U+2029, U+202F, U+205F, U+3000 and U+FEFF, here in UTF-8.
\<close>

definition whiteSpace :: "string list" where
  "whiteSpace =
     [[CHR 0x09], [CHR 0x0A], [CHR 0x0B], [CHR 0x0C], [CHR 0x0D], [CHR 0x20],
      [CHR 0xC2, CHR 0xA0],
      [CHR 0xE1, CHR 0x9A, CHR 0x80],
      [CHR 0xE2, CHR 0x80, CHR 0x80], [CHR 0xE2, CHR 0x80, CHR 0x81],
      [CHR 0xE2, CHR 0x80, CHR 0x82], [CHR 0xE2, CHR 0x80, CHR 0x83],
      [CHR 0xE2, CHR 0x80, CHR 0x84], [CHR 0xE2, CHR 0x80, CHR 0x85],
      [CHR 0xE2, CHR 0x80, CHR 0x86], [CHR 0xE2, CHR 0x80, CHR 0x87],
      [CHR 0xE2, CHR 0x80, CHR 0x88], [CHR 0xE2, CHR 0x80, CHR 0x89],
      [CHR 0xE2, CHR 0x80, CHR 0x8A],
      [CHR 0xE2, CHR 0x80, CHR 0xA8], [CHR 0xE2, CHR 0x80, CHR 0xA9],
      [CHR 0xE2, CHR 0x80, CHR 0xAF],
      [CHR 0xE2, CHR 0x81, CHR 0x9F],
      [CHR 0xE3, CHR 0x80, CHR 0x80],
      [CHR 0xEF, CHR 0xBB, CHR 0xBF]]"

text \<open>
  \<open>leading codes s\<close> is the length of the code that \<open>s\<close> starts with, 0 when it starts
  with none; \<open>stripStart\<close> removes such codes for as long as one is found.
\<close>

definition leading :: "string list \<Rightarrow> string \<Rightarrow> nat" where
  "leading codes s =
     (case filter (\<lambda>w. take (length w) s = w) codes of [] \<Rightarrow> 0 | w # ws \<Rightarrow> length w)"

fun stripStart :: "string list \<Rightarrow> string \<Rightarrow> string" where
  "stripStart codes [] = []"
| "stripStart codes (c # cs) =
     (if leading codes (c # cs) = 0 then c # cs
      else stripStart codes (drop (leading codes (c # cs) - 1) cs))"

definition trimStart :: "string \<Rightarrow> string" where
  "trimStart s = stripStart whiteSpace s"

definition trimEnd :: "string \<Rightarrow> string" where
  "trimEnd s = rev (stripStart (map rev whiteSpace) (rev s))"

definition trim :: "string \<Rightarrow> string" where
  "trim s = trimEnd (trimStart s)"

definition isDigit :: "char \<Rightarrow> bool" where
  "isDigit c \<longleftrightarrow> c \<in> set ''0123456789''"

definition isHexDigit :: "char \<Rightarrow> bool" where
  "isHexDigit c \<longleftrightarrow> c \<in> set ''0123456789abcdefABCDEF''"

definition isAlnum :: "char \<Rightarrow> bool" where
  "isAlnum c \<longleftrightarrow> c \<in> set ''0123456789ABCDEFGHIJKLMNOPQRSTUVWXYZabcdefghijklmnopqrstuvwxyz''"

text \<open>
  \<open>toLowerCase\<close> and \<open>toUpperCase\<close>, character by character. The scripts and the
  address functions apply them to ASCII letters and digits only.
\<close>

definition toLowerCase_char :: "char \<Rightarrow> char" where
  "toLowerCase_char c =
     (case map_of (zip ''ABCDEFGHIJKLMNOPQRSTUVWXYZ'' ''abcdefghijklmnopqrstuvwxyz'') c of
        Some d \<Rightarrow> d | None \<Rightarrow> c)"

definition toUpperCase_char :: "char \<Rightarrow> char" where
  "toUpperCase_char c =
     (case map_of (zip ''abcdefghijklmnopqrstuvwxyz'' ''ABCDEFGHIJKLMNOPQRSTUVWXYZ'') c of
        Some d \<Rightarrow> d | None \<Rightarrow> c)"

definition toLowerCase :: "string \<Rightarrow> string" where
  "toLowerCase s = map toLowerCase_char s"

definition toUpperCase :: "string \<Rightarrow> string" where
  "toUpperCase s = map toUpperCase_char s"

text \<open>
  The value of a digit or letter in a radix up to 36, either case, from its character
  code; 0 for any other character.
\<close>

definition digitValue :: "char \<Rightarrow> nat" where
  "digitValue c =
     (let n = (of_char c :: nat)
      in if 48 \<le> n \<and> n \<le> 57 then n - 48
         else if 97 \<le> n \<and> n \<le> 122 then n - 87
         else if 65 \<le> n \<and> n \<le> 90 then n - 55
         else 0)"

definition parseRadix :: "nat \<Rightarrow> string \<Rightarrow> nat" where
  "parseRadix b s = foldl (\<lambda>acc c. acc * b + digitValue c) 0 s"

text \<open>\<open>n.toString(b)\<close> for a non-negative integer: no leading zero, \<open>''0''\<close> for zero.\<close>

fun showRadix :: "nat \<Rightarrow> nat \<Rightarrow> string" where
  "showRadix b n =
     (if b < 2 \<or> n < b then [''0123456789abcdefghijklmnopqrstuvwxyz'' ! (n mod 36)]
      else showRadix b (n div b) @ [''0123456789abcdefghijklmnopqrstuvwxyz'' ! (n mod b)])"

definition showNat :: "nat \<Rightarrow> string" where
  "showNat n = showRadix 10 n"

section \<open>The address functions of the ethers library\<close>

text \<open>
  \<open>ethers.utils.getAddress\<close> and \<open>ethers.utils.isAddress\<close> belong to the ethers v5
  library, which the scripts import. They are modelled after that library: an address is
  40 hexadecimal digits with an optional \<open>0x\<close>, a string of mixed case must carry the
  EIP-55 checksum, and the ICAP form \<open>XE..\<close> is accepted as well. The checksum is taken
  from the Keccak-256 hash of the lower-case digits.
\<close>

subsection \<open>Keccak-256\<close>

type_synonym lane = "64 word"

definition rotl64 :: "lane \<Rightarrow> nat \<Rightarrow> lane" where
  "rotl64 w n = push_bit n w OR drop_bit (64 - n) w"

definition round_constants :: "lane list" where
  "round_constants =
     [0x0000000000000001, 0x0000000000008082, 0x800000000000808A, 0x8000000080008000,
      0x000000000000808B, 0x0000000080000001, 0x8000000080008081, 0x8000000000008009,
      0x000000000000008A, 0x0000000000000088, 0x0000000080008009, 0x000000008000000A,
      0x000000008000808B, 0x800000000000008B, 0x8000000000008089, 0x8000000000008003,
      0x8000000000008002, 0x8000000000000080, 0x000000000000800A, 0x800000008000000A,
      0x8000000080008081, 0x8000000000008080, 0x0000000080000001, 0x8000000080008008]"

definition rho_offsets :: "nat list" where
  "rho_offsets =
     [0, 1, 62, 28, 27, 36, 44, 6, 55, 20, 3, 10, 43, 25, 39, 41, 45, 15, 21, 8, 18, 2, 61, 56, 14]"

definition theta :: "lane list \<Rightarrow> lane list" where
  "theta a =
     (let c = map (\<lambda>x. a ! x XOR a ! (x + 5) XOR a ! (x + 10) XOR a ! (x + 15) XOR a ! (x + 20)) [0 ..< 5];
          d = map (\<lambda>x. c ! ((x + 4) mod 5) XOR rotl64 (c ! ((x + 1) mod 5)) 1) [0 ..< 5]
      in map (\<lambda>i. a ! i XOR d ! (i mod 5)) [0 ..< 25])"

definition rho_pi :: "lane list \<Rightarrow> lane list" where
  "rho_pi a =
     map (\<lambda>j. let x = (j mod 5 + 3 * (j div 5)) mod 5; y = j mod 5
              in rotl64 (a ! (x + 5 * y)) (rho_offsets ! (x + 5 * y))) [0 ..< 25]"

definition chi :: "lane list \<Rightarrow> lane list" where
  "chi b =
     map (\<lambda>i. let x = i mod 5; y = i div 5
              in b ! i XOR (NOT (b ! ((x + 1) mod 5 + 5 * y)) AND b ! ((x + 2) mod 5 + 5 * y)))
       [0 ..< 25]"

definition iota :: "nat \<Rightarrow> lane list \<Rightarrow> lane list" where
  "iota r a = (a ! 0 XOR round_constants ! r) # tl a"

definition keccak_round :: "lane list \<Rightarrow> nat \<Rightarrow> lane list" where
  "keccak_round a r = iota r (chi (rho_pi (theta a)))"

definition keccak_f :: "lane list \<Rightarrow> lane list" where
  "keccak_f a = foldl keccak_round a [0 ..< 24]"

definition lane_of_bytes :: "8 word list \<Rightarrow> lane" where
  "lane_of_bytes bs = foldr (\<lambda>b acc. ucast b OR push_bit 8 acc) bs 0"

definition bytes_of_lane :: "lane \<Rightarrow> 8 word list" where
  "bytes_of_lane w = map (\<lambda>i. ucast (drop_bit (8 * i) w)) [0 ..< 8]"

fun chunks :: "nat \<Rightarrow> 'a list \<Rightarrow> 'a list list" where
  "chunks n [] = []"
| "chunks n (x # xs) =
     (if n = 0 then [] else take n (x # xs) # chunks n (drop n (x # xs)))"

definition pad101 :: "8 word list \<Rightarrow> 8 word list" where
  "pad101 m =
     (let k = 136 - length m mod 136
      in if k = 1 then m @ [0x81] else m @ [0x01] @ replicate (k - 2) 0 @ [0x80])"

definition absorb :: "lane list \<Rightarrow> 8 word list \<Rightarrow> lane list" where
  "absorb st block =
     keccak_f (map2 (XOR) st (map lane_of_bytes (chunks 8 block) @ replicate 8 0))"

definition keccak256 :: "8 word list \<Rightarrow> 8 word list" where
  "keccak256 m =
     take 32 (concat (map bytes_of_lane (foldl absorb (replicate 25 0) (chunks 136 (pad101 m)))))"

subsection \<open>Checksums and address forms\<close>

definition AddressZero :: string where
  "AddressZero = ''0x0000000000000000000000000000000000000000''"

text \<open>\<open>isHexString(value, 20)\<close>: \<open>0x\<close> and exactly 40 hexadecimal digits.\<close>

definition isHexString20 :: "string \<Rightarrow> bool" where
  "isHexString20 s \<longleftrightarrow> take 2 s = ''0x'' \<and> length s = 42 \<and> list_all isHexDigit (drop 2 s)"

definition nibbles :: "8 word list \<Rightarrow> nat list" where
  "nibbles bs = concat (map (\<lambda>b. [unat b div 16, unat b mod 16]) bs)"

text \<open>
  \<open>getChecksumAddress\<close>: lower-case the digits, hash their character codes, and put
  digit \<open>i\<close> in upper case when nibble \<open>i\<close> of the hash is at least 8. \<open>None\<close> is the
  thrown "invalid address".
\<close>

definition checksumCase :: "char \<Rightarrow> nat \<Rightarrow> char" where
  "checksumCase c n = (if 8 \<le> n then toUpperCase_char c else c)"

definition getChecksumAddress :: "string \<Rightarrow> string option" where
  "getChecksumAddress address =
     (if \<not> isHexString20 address then None
      else let chars = drop 2 (toLowerCase address);
               hashed = keccak256 (map of_char chars)
           in Some (''0x'' @ map2 checksumCase chars (take 40 (nibbles hashed))))"

text \<open>The regular expression \<open>/([A-F].*[a-f])|([a-f].*[A-F])/\<close> on a string of digits.\<close>

definition mixedCase :: "string \<Rightarrow> bool" where
  "mixedCase s \<longleftrightarrow>
     (\<exists>i < length s. \<exists>j < length s. i < j \<and>
        ((s ! i \<in> set ''ABCDEF'' \<and> s ! j \<in> set ''abcdef'') \<or>
         (s ! i \<in> set ''abcdef'' \<and> s ! j \<in> set ''ABCDEF'')))"

text \<open>
  \<open>ibanChecksum\<close>: move the first four characters behind the rest with the check digits
  cleared, read digits and letters (\<open>A\<close> is 10) as one decimal number, and take 98 minus
  its remainder modulo 97, on two digits.
\<close>

definition ibanChecksum :: "string \<Rightarrow> string" where
  "ibanChecksum address =
     (let u = toUpperCase address;
          s = drop 4 u @ take 2 u @ ''00'';
          n = foldl (\<lambda>acc c. if isDigit c then acc * 10 + digitValue c
                              else acc * 100 + digitValue c) 0 s;
          checksum = showNat (98 - n mod 97)
      in if length checksum < 2 then CHR ''0'' # checksum else checksum)"

definition isIcap :: "string \<Rightarrow> bool" where
  "isIcap s \<longleftrightarrow>
     take 2 s = ''XE'' \<and> (length s = 34 \<or> length s = 35) \<and>
     list_all isDigit (take 2 (drop 2 s)) \<and> list_all isAlnum (drop 4 s)"

definition getAddress :: "string \<Rightarrow> string option" where
  "getAddress address =
     (if (length address = 40 \<and> list_all isHexDigit address) \<or> isHexString20 address then
        (let a = (if take 2 address \<noteq> ''0x'' then ''0x'' @ address else address)
         in case getChecksumAddress a of
              None \<Rightarrow> None
            | Some result \<Rightarrow> if mixedCase a \<and> result \<noteq> a then None else Some result)
      else if isIcap address then
        (if take 2 (drop 2 address) \<noteq> ibanChecksum address then None
         else let h = showRadix 16 (parseRadix 36 (drop 4 address))
              in getChecksumAddress (''0x'' @ replicate (40 - length h) CHR ''0'' @ h))
      else None)"

definition isAddress :: "string \<Rightarrow> bool" where
  "isAddress address \<longleftrightarrow> getAddress address \<noteq> None"

section \<open>Numbers\<close>

text \<open>
  A JavaScript number is a binary64 value. \<open>Finite q\<close> carries the exact value of a
  finite one; the two zeros are not told apart (no script observes the difference:
  \<open>-0 < 0\<close> is false and \<open>-0\<close> prints as \<open>0\<close>).
\<close>

datatype jsnumber = NaN | PosInfinity | NegInfinity | Finite rat

fun bitLength :: "nat \<Rightarrow> nat" where
  "bitLength n = (if n = 0 then 0 else Suc (bitLength (n div 2)))"

definition pow2 :: "int \<Rightarrow> rat" where
  "pow2 e = (if 0 \<le> e then 2 ^ nat e else 1 / 2 ^ nat (- e))"

definition pow10 :: "int \<Rightarrow> rat" where
  "pow10 e = (if 0 \<le> e then 10 ^ nat e else 1 / 10 ^ nat (- e))"

text \<open>
  \<open>floorLog2 q\<close> is the exponent \<open>e\<close> with \<open>2^e \<le> q < 2^(e+1)\<close>, for positive \<open>q\<close>:
  one less than the bit length of the integer part from 1 on, and below 1 the negated
  bit length of \<open>\<lceil>1/q\<rceil> - 1\<close>.
\<close>

definition floorLog2 :: "rat \<Rightarrow> int" where
  "floorLog2 q =
     (if 1 \<le> q then int (bitLength (nat \<lfloor>q\<rfloor>)) - 1
      else - int (bitLength (nat (\<lceil>1 / q\<rceil> - 1))))"

definition roundHalfEven :: "rat \<Rightarrow> int" where
  "roundHalfEven x =
     (let f = \<lfloor>x\<rfloor>; r = x - of_int f
      in if r < 1 / 2 then f else if 1 / 2 < r then f + 1 else if even f then f else f + 1)"

text \<open>Rounding a mathematical value to the nearest binary64 value, ties to even.\<close>

definition toDouble :: "rat \<Rightarrow> jsnumber" where
  "toDouble q =
     (if q = 0 then Finite 0
      else let e = max (floorLog2 \<bar>q\<bar>) (- 1022);
               ulp = pow2 (e - 52);
               v = of_int (roundHalfEven (\<bar>q\<bar> / ulp)) * ulp
           in if pow2 1024 \<le> v then (if q < 0 then NegInfinity else PosInfinity)
              else Finite (if q < 0 then - v else v))"

text \<open>
  \<open>StrUnsignedDecimalLiteral\<close> without \<open>Infinity\<close>: digits, an optional fraction and an
  optional exponent, with a digit before or after the point.
\<close>

definition strUnsignedDecimalLiteral :: "string \<Rightarrow> rat option" where
  "strUnsignedDecimalLiteral s =
     (let ip = takeWhile isDigit s;
          r1 = dropWhile isDigit s;
          fp = (if take 1 r1 = ''.'' then takeWhile isDigit (drop 1 r1) else []);
          r2 = (if take 1 r1 = ''.'' then dropWhile isDigit (drop 1 r1) else r1);
          mant = of_nat (parseRadix 10 (ip @ fp)) * pow10 (- int (length fp))
      in if ip = [] \<and> fp = [] then None
         else if r2 = [] then Some mant
         else if take 1 r2 = ''e'' \<or> take 1 r2 = ''E'' then
           (let r3 = drop 1 r2;
                neg = (take 1 r3 = ''-'');
                ds = (if take 1 r3 = ''-'' \<or> take 1 r3 = ''+'' then drop 1 r3 else r3);
                ex = int (parseRadix 10 ds)
            in if ds \<noteq> [] \<and> list_all isDigit ds
               then Some (mant * pow10 (if neg then - ex else ex)) else None)
         else None)"

definition nonDecimalLiteral :: "nat \<Rightarrow> string \<Rightarrow> string \<Rightarrow> jsnumber" where
  "nonDecimalLiteral b allowed ds =
     (if ds \<noteq> [] \<and> list_all (\<lambda>c. c \<in> set allowed) ds
      then toDouble (of_nat (parseRadix b ds)) else NaN)"

text \<open>
  \<open>Number(s)\<close> on a string: white space is trimmed, the empty string is 0, then a
  hexadecimal, octal or binary integer literal, or a signed decimal literal, or
  \<open>Infinity\<close>; anything else is \<open>NaN\<close>.
\<close>

definition Number :: "string \<Rightarrow> jsnumber" where
  "Number s =
     (let t = trim s;
          neg = (take 1 t = ''-'');
          u = (if take 1 t = ''-'' \<or> take 1 t = ''+'' then drop 1 t else t)
      in if t = [] then Finite 0
         else if take 2 t = ''0x'' \<or> take 2 t = ''0X''
           then nonDecimalLiteral 16 ''0123456789abcdefABCDEF'' (drop 2 t)
         else if take 2 t = ''0o'' \<or> take 2 t = ''0O''
           then nonDecimalLiteral 8 ''01234567'' (drop 2 t)
         else if take 2 t = ''0b'' \<or> take 2 t = ''0B''
           then nonDecimalLiteral 2 ''01'' (drop 2 t)
         else if u = ''Infinity'' then (if neg then NegInfinity else PosInfinity)
         else case strUnsignedDecimalLiteral u of
                None \<Rightarrow> NaN
              | Some q \<Rightarrow> toDouble (if neg then - q else q))"

text \<open>\<open>Number.isInteger\<close>, and \<open>x < k\<close> and \<open>x > k\<close> against an integer constant.\<close>

fun isInteger :: "jsnumber \<Rightarrow> bool" where
  "isInteger (Finite q) = (of_int \<lfloor>q\<rfloor> = q)"
| "isInteger _ = False"

fun numLess :: "jsnumber \<Rightarrow> int \<Rightarrow> bool" where
  "numLess (Finite q) k = (q < of_int k)"
| "numLess NegInfinity k = True"
| "numLess _ k = False"

fun numGreater :: "jsnumber \<Rightarrow> int \<Rightarrow> bool" where
  "numGreater (Finite q) k = (of_int k < q)"
| "numGreater PosInfinity k = True"
| "numGreater _ k = False"

fun intValue :: "jsnumber \<Rightarrow> int" where
  "intValue (Finite q) = \<lfloor>q\<rfloor>"
| "intValue _ = 0"

text \<open>
  \<open>BigNumber.from\<close> of the ethers library on a string: an optionally negative decimal
  or \<open>0x\<close> literal, anything else throws.
\<close>

definition BigNumber_from :: "string \<Rightarrow> error + int" where
  "BigNumber_from v =
     (let neg = (take 1 v = ''-'');
          u = (if neg then drop 1 v else v);
          sgn = (\<lambda>n. if neg then - int n else int n)
      in if (take 2 u = ''0x'' \<or> take 2 u = ''0X'') \<and> drop 2 u \<noteq> [] \<and> list_all isHexDigit (drop 2 u)
           then Inr (sgn (parseRadix 16 (drop 2 u)))
         else if u \<noteq> [] \<and> list_all isDigit u then Inr (sgn (parseRadix 10 u))
         else Inl (Error ''invalid BigNumber string''))"

section \<open>Validation helpers of the scripts\<close>

text \<open>
  \<open>requireAddress\<close> is the same function in \<open>deployIdentity.ts\<close>,
  \<open>registerIdentity.ts\<close> and the property-token script.
\<close>

definition requireAddress :: "string \<Rightarrow> string \<Rightarrow> error + string" where
  "requireAddress label v =
     (if \<not> isAddress v then Inl (Error (label @ '' must be a valid Ethereum address''))
      else case getAddress v of
             Some a \<Rightarrow> Inr a
           | None \<Rightarrow> Inl (Error ''invalid address''))"

definition requireSalt :: "string \<Rightarrow> error + string" where
  "requireSalt input =
     (let salt = trim input
      in if salt = [] then Inl (Error ''Deployment salt cannot be empty'') else Inr salt)"

definition parseDecimals :: "string option \<Rightarrow> nat \<Rightarrow> error + int" where
  "parseDecimals raw fallback =
     (let source = nullish raw (showNat fallback);
          parsed = Number source
      in if \<not> isInteger parsed \<or> numLess parsed 0 \<or> numGreater parsed 18
         then Inl (Error ''Token decimals must be an integer between 0 and 18'')
         else Inr (intValue parsed))"

section \<open>The property-token deployment script\<close>

record SuiteAddresses =
  token :: string
  identityRegistry :: string
  identityRegistryStorage :: string
  trustedIssuersRegistry :: string
  claimTopicsRegistry :: string
  modularCompliance :: string

record ClaimDetails =
  claimTopics :: "nat list"
  issuers :: "string list"
  issuerClaims :: "nat list list"

record TokenDetails =
  owner :: string
  name :: string
  symbol :: string
  decimals :: int
  irs :: string
  ONCHAINID :: string
  irAgents :: "string list"
  tokenAgents :: "string list"
  complianceModules :: "string list"
  complianceSettings :: "string list"

definition DEFAULT_FACTORY_PLACEHOLDER :: string where
  "DEFAULT_FACTORY_PLACEHOLDER = ''0xB7f8BC63BbcaD18155201308C8f3540b07f84F5e''"

definition buildClaimDetails :: ClaimDetails where
  "buildClaimDetails = \<lparr>claimTopics = [], issuers = [], issuerClaims = []\<rparr>"

subsection \<open>Event arguments and receipt logs\<close>

text \<open>
  The arguments of a parsed event are \<open>unknown\<close> values reachable by name and by
  position. \<open>normalizeAddressArg\<close> tells apart a string, an object (with the result of
  its \<open>toString\<close> when it has one) and everything else; a name or position that is
  absent reads as \<open>undefined\<close>.
\<close>

datatype jsvalue = JUndefined | JNull | JString string | JObject "string option" | JOther

record EventArgs =
  named :: "(string \<times> jsvalue) list"
  positional :: "jsvalue list"

definition byName :: "EventArgs \<Rightarrow> string \<Rightarrow> jsvalue" where
  "byName args key = (case map_of (named args) key of None \<Rightarrow> JUndefined | Some v \<Rightarrow> v)"

definition byIndex :: "EventArgs \<Rightarrow> nat \<Rightarrow> jsvalue" where
  "byIndex args i = (if i < length (positional args) then positional args ! i else JUndefined)"

text \<open>\<open>args[key] ?? args[index]\<close>\<close>

definition candidate :: "EventArgs \<Rightarrow> string \<Rightarrow> nat \<Rightarrow> jsvalue" where
  "candidate args key i =
     (if byName args key = JUndefined \<or> byName args key = JNull then byIndex args i
      else byName args key)"

fun stringOf :: "jsvalue \<Rightarrow> string option" where
  "stringOf (JString s) = Some s"
| "stringOf (JObject (Some s)) = Some s"
| "stringOf _ = None"

definition normalizeAddressArg :: "EventArgs \<Rightarrow> string \<Rightarrow> nat \<Rightarrow> error + string" where
  "normalizeAddressArg args key i =
     (case stringOf (candidate args key i) of
        None \<Rightarrow> Inl (Error (''Could not read '' @ key @ '' from TREXSuiteDeployed event.''))
      | Some v \<Rightarrow>
          if v = [] \<or> v = ''0x'' \<or> v = AddressZero
          then Inl (Error (''Could not read '' @ key @ '' from TREXSuiteDeployed event.''))
          else (case getAddress v of
                  Some a \<Rightarrow> Inr a
                | None \<Rightarrow> Inl (Error ''invalid address'')))"

text \<open>
  A receipt log together with what \<open>trexFactory.interface.parseLog\<close> makes of it:
  \<open>Undecodable\<close> when parsing throws (the log belongs to another contract), otherwise
  the event name and arguments.
\<close>

datatype log = Undecodable | Decodes string EventArgs

record receipt =
  blockNumber :: nat
  gasUsed :: nat
  logs :: "log list"

text \<open>
  The object literal of the loop body: the six fields are evaluated in order, and the
  first throw leaves no object.
\<close>

definition readSuite :: "EventArgs \<Rightarrow> error + SuiteAddresses" where
  "readSuite args =
     andThen (normalizeAddressArg args ''_token'' 0) (\<lambda>a0.
     andThen (normalizeAddressArg args ''_ir'' 1) (\<lambda>a1.
     andThen (normalizeAddressArg args ''_irs'' 2) (\<lambda>a2.
     andThen (normalizeAddressArg args ''_tir'' 3) (\<lambda>a3.
     andThen (normalizeAddressArg args ''_ctr'' 4) (\<lambda>a4.
     andThen (normalizeAddressArg args ''_mc'' 5) (\<lambda>a5.
       Inr \<lparr>token = a0, identityRegistry = a1, identityRegistryStorage = a2,
            trustedIssuersRegistry = a3, claimTopicsRegistry = a4,
            modularCompliance = a5\<rparr>))))))"

text \<open>
  The \<open>for\<close> loop over the receipt logs. The \<open>try\<close> encloses both \<open>parseLog\<close> and the
  object literal, so a throw of either goes to the empty \<open>catch\<close> and the loop moves on;
  \<open>break\<close> is reached only once \<open>suiteAddresses\<close> is assigned.
\<close>

fun scanLogs :: "log list \<Rightarrow> SuiteAddresses option" where
  "scanLogs [] = None"
| "scanLogs (Undecodable # ls) = scanLogs ls"
| "scanLogs (Decodes ev args # ls) =
     (if ev = ''TREXSuiteDeployed''
      then (case readSuite args of Inr suite \<Rightarrow> Some suite | Inl e \<Rightarrow> scanLogs ls)
      else scanLogs ls)"

definition extractSuiteAddresses :: "log list \<Rightarrow> error + SuiteAddresses" where
  "extractSuiteAddresses ls =
     (case scanLogs ls of
        None \<Rightarrow> Inl (Error ''Could not find TREXSuiteDeployed event in the transaction receipt.'')
      | Some suite \<Rightarrow> Inr suite)"

subsection \<open>The ledger, and what a run leaves behind\<close>

text \<open>
  The ledger is everything the script reads from outside: the signers Hardhat hands out
  (by address), the network name, and the answers of the node and of the factory
  contract. A call that rejects is an \<open>Inl\<close>.
\<close>

record ledger =
  signers :: "string list"
  networkName :: "string option"
  getCode :: "string \<Rightarrow> error + string"
  getToken :: "string \<Rightarrow> error + string"
  deployTREXSuite :: "string \<Rightarrow> TokenDetails \<Rightarrow> ClaimDetails \<Rightarrow> error + string"
  wait :: "string \<Rightarrow> error + receipt"

datatype request =
    GetCode string
  | GetToken string
  | DeployTREXSuite string TokenDetails ClaimDetails
  | Wait string

text \<open>
  Console lines, with the two pictographs that open some of them in the source: the
  warning sign U+26A0 U+FE0F and the check mark U+2705.
\<close>

definition warningSign :: string where
  "warningSign = [CHR 0xE2, CHR 0x9A, CHR 0xA0, CHR 0xEF, CHR 0xB8, CHR 0x8F]"

definition checkMark :: string where
  "checkMark = [CHR 0xE2, CHR 0x9C, CHR 0x85]"

datatype console_line = Log string | Warn string | Table "(string \<times> string) list"

record run =
  printed :: "console_line list"
  requests :: "request list"
  outcome :: "error + unit"

definition stop :: "console_line list \<Rightarrow> request list \<Rightarrow> error \<Rightarrow> run" where
  "stop p r e = \<lparr>printed = p, requests = r, outcome = Inl e\<rparr>"

definition finish :: "console_line list \<Rightarrow> request list \<Rightarrow> run" where
  "finish p r = \<lparr>printed = p, requests = r, outcome = Inr ()\<rparr>"

fun message :: "error \<Rightarrow> string" where
  "message (Error m) = m"
| "message (TypeError m) = m"

definition undefinedAddress :: error where
  "undefinedAddress =
     TypeError (''Cannot read properties of undefined (reading '' @ [CHR 0x27] @ ''address''
                @ [CHR 0x27] @ '')'')"

definition missingCode :: "string option \<Rightarrow> string \<Rightarrow> string \<Rightarrow> error" where
  "missingCode network address label =
     (let nm = nullish network ''unknown'';
          hint = (if nm = ''hardhat''
                  then ''Start `npx hardhat node` in another terminal and rerun with ''
                       @ ''`--network localhost`, or deploy the factory within this ''
                       @ ''script before using it.''
                  else ''Make sure the contract is deployed on the '' @ [CHR 0x22] @ nm
                       @ [CHR 0x22] @ '' network.'')
      in Error (label @ '' ('' @ address @ '') has no contract bytecode on network ''
                @ [CHR 0x22] @ nm @ [CHR 0x22] @ ''. '' @ hint))"

definition ensureContractDeployed :: "ledger \<Rightarrow> string \<Rightarrow> string \<Rightarrow> error + unit" where
  "ensureContractDeployed L address label =
     (case getCode L address of
        Inl e \<Rightarrow> Inl e
      | Inr code \<Rightarrow>
          if code = ''0x'' then Inl (missingCode (networkName L) address label) else Inr ())"

definition logSuite :: "SuiteAddresses \<Rightarrow> console_line list" where
  "logSuite t =
     [Log ([CHR 0x0A] @ ''--- Deployed Suite ---''),
      Table [(''Token'', token t),
             (''IdentityRegistry'', identityRegistry t),
             (''IdentityRegistryStorage'', identityRegistryStorage t),
             (''TrustedIssuersRegistry'', trustedIssuersRegistry t),
             (''ClaimTopicsRegistry'', claimTopicsRegistry t),
             (''ModularCompliance'', modularCompliance t)]]"

subsection \<open>\<open>main\<close> of the property-token script\<close>

text \<open>
  The inputs read before the first request to the node: the factory address, the token
  name, symbol and decimals, the owner and the salt, in the order of the source.
\<close>

record config =
  factoryAddress :: string
  propertyTokenName :: string
  propertyTokenSymbol :: string
  propertyTokenDecimals :: int
  propertyOwnerAddress :: string
  deploymentSalt :: string

text \<open>\<open>process.env.PROPERTY_OWNER_ADDRESS ?? secondarySigner?.address ?? deployer.address\<close>\<close>

definition ownerInput :: "env \<Rightarrow> string list \<Rightarrow> error + string" where
  "ownerInput env sg =
     (case env ''PROPERTY_OWNER_ADDRESS'' of
        Some v \<Rightarrow> Inr v
      | None \<Rightarrow> (case sg of
                   [] \<Rightarrow> Inl undefinedAddress
                 | [deployer] \<Rightarrow> Inr deployer
                 | deployer # secondarySigner # _ \<Rightarrow> Inr secondarySigner))"

text \<open>\<open>process.env.PROPERTY_TOKEN_NAME?.trim() || "Luxury Villa A4"\<close>\<close>

definition tokenNameInput :: "env \<Rightarrow> string" where
  "tokenNameInput env = or_else (map_option trim (env ''PROPERTY_TOKEN_NAME'')) ''Luxury Villa A4''"

text \<open>\<open>process.env.PROPERTY_TOKEN_SALT ?? propertyTokenName\<close>\<close>

definition saltInput :: "env \<Rightarrow> string" where
  "saltInput env = nullish (env ''PROPERTY_TOKEN_SALT'') (tokenNameInput env)"

definition readConfig :: "env \<Rightarrow> string list \<Rightarrow> error + config" where
  "readConfig env sg =
     andThen (requireAddress ''TREX factory address''
                (nullish (env ''TREX_FACTORY_ADDRESS'') DEFAULT_FACTORY_PLACEHOLDER)) (\<lambda>fa.
     let nm = tokenNameInput env;
         sy = or_else (map_option trim (env ''PROPERTY_TOKEN_SYMBOL'')) ''LVA1''
     in andThen (parseDecimals (env ''PROPERTY_TOKEN_DECIMALS'') 0) (\<lambda>dc.
        andThen (ownerInput env sg) (\<lambda>oi.
        andThen (requireAddress ''Property owner address'' oi) (\<lambda>oa.
        andThen (requireSalt (saltInput env)) (\<lambda>salt.
          Inr \<lparr>factoryAddress = fa, propertyTokenName = nm, propertyTokenSymbol = sy,
               propertyTokenDecimals = dc, propertyOwnerAddress = oa,
               deploymentSalt = salt\<rparr>)))))"

text \<open>
  The part of \<open>main\<close> after the duplicate check: the factory call, the wait for the
  receipt and the search for the event.
\<close>

definition deploySuite :: "ledger \<Rightarrow> config \<Rightarrow> console_line list \<Rightarrow> request list \<Rightarrow> run" where
  "deploySuite L c p1 r1 =
     (case signers L of
        [] \<Rightarrow> stop p1 r1 undefinedAddress
      | deployer # _ \<Rightarrow>
     (let uniqueAgents = (if deployer = propertyOwnerAddress c then [deployer]
                          else [deployer, propertyOwnerAddress c]);
          tokenDetails = \<lparr>owner = propertyOwnerAddress c, name = propertyTokenName c,
                          symbol = propertyTokenSymbol c, decimals = propertyTokenDecimals c,
                          irs = AddressZero, ONCHAINID = AddressZero,
                          irAgents = uniqueAgents, tokenAgents = uniqueAgents,
                          complianceModules = [], complianceSettings = []\<rparr>;
          claimDetails = buildClaimDetails;
          p2 = p1 @ [Log (''Using TREX factory at: '' @ factoryAddress c),
                     Log (''Deployment salt: '' @ deploymentSalt c),
                     Log (''Deployer: '' @ deployer),
                     Log (''Property owner: '' @ propertyOwnerAddress c),
                     Log (''Deploying token '' @ propertyTokenName c @ '' (''
                          @ propertyTokenSymbol c @ '') with ''
                          @ showNat (nat (propertyTokenDecimals c)) @ '' decimals'')];
          r2 = r1 @ [DeployTREXSuite (deploymentSalt c) tokenDetails claimDetails]
      in case deployTREXSuite L (deploymentSalt c) tokenDetails claimDetails of
           Inl e \<Rightarrow> stop p2 r2 e
         | Inr hash \<Rightarrow>
      (let p3 = p2 @ [Log (''Submitted deployment tx: '' @ hash)];
           r3 = r2 @ [Wait hash]
       in case wait L hash of
            Inl e \<Rightarrow> stop p3 r3 e
          | Inr rc \<Rightarrow>
       (let p4 = p3 @ [Log (''Transaction confirmed in block '' @ showNat (blockNumber rc)
                            @ '' (gas used: '' @ showNat (gasUsed rc) @ '')'')]
        in case extractSuiteAddresses (logs rc) of
             Inl e \<Rightarrow> stop p4 r3 e
           | Inr suite \<Rightarrow>
               finish (p4 @ [Log (checkMark @ '' New property TREX suite deployed successfully!'')]
                          @ logSuite suite) r3))))"

definition duplicateCheckWarning :: "error \<Rightarrow> console_line" where
  "duplicateCheckWarning e =
     Warn (warningSign @ ''  Skipping duplicate deployment check because factory.getToken reverted: ''
           @ message e @ ''. Continuing with deployment.'')"

definition existingSuiteLine :: "string \<Rightarrow> string \<Rightarrow> console_line" where
  "existingSuiteLine salt a =
     Log (warningSign @ ''  Detected existing TREX suite for salt '' @ [CHR 0x22] @ salt
          @ [CHR 0x22] @ '': '' @ a @ ''. Aborting to avoid duplicate deployment.'')"

definition main :: "env \<Rightarrow> ledger \<Rightarrow> run" where
  "main env L =
     (let p0 = [Log ''Preparing single property TREX deployment...'']
      in case readConfig env (signers L) of
           Inl e \<Rightarrow> stop p0 [] e
         | Inr c \<Rightarrow>
      (case ensureContractDeployed L (factoryAddress c) ''TREX factory address'' of
           Inl e \<Rightarrow> stop p0 [GetCode (factoryAddress c)] e
         | Inr u \<Rightarrow>
      (let r1 = [GetCode (factoryAddress c), GetToken (deploymentSalt c)];
           existingDeployment = (case getToken L (deploymentSalt c) of
                                   Inr a \<Rightarrow> a | Inl e \<Rightarrow> AddressZero);
           p1 = (case getToken L (deploymentSalt c) of
                   Inr a \<Rightarrow> p0 | Inl e \<Rightarrow> p0 @ [duplicateCheckWarning e])
       in if existingDeployment \<noteq> [] \<and> existingDeployment \<noteq> AddressZero
          then finish (p1 @ [existingSuiteLine (deploymentSalt c) existingDeployment]) r1
          else deploySuite L c p1 r1)))"

text \<open>
  A run reaches the duplicate check with configuration \<open>c\<close> when every input is accepted
  and the factory address holds contract code.
\<close>

definition reachesGuard :: "env \<Rightarrow> ledger \<Rightarrow> config \<Rightarrow> bool" where
  "reachesGuard env L c \<longleftrightarrow>
     readConfig env (signers L) = Inr c \<and>
     ensureContractDeployed L (factoryAddress c) ''TREX factory address'' = Inr ()"

section \<open>Signers\<close>

text \<open>
  A signer is either an account of the Hardhat pool, known by its address, or a wallet
  made from a private key by \<open>new Wallet(key, provider)\<close>. The constructor throws on a
  string that is no private key; which strings those are is decided by the ethers
  library and enters the model as the predicate \<open>validKey\<close>.
\<close>

datatype signer = Account string | Wallet string

definition newWallet :: "(string \<Rightarrow> bool) \<Rightarrow> string \<Rightarrow> error + signer" where
  "newWallet validKey k = (if validKey k then Inr (Wallet k) else Inl (Error ''invalid private key''))"

section \<open>The identity-registration script\<close>

record registration =
  registry :: string
  agent :: signer
  userAddresses :: "string list"
  identities :: "string list"
  countries :: "nat list"

text \<open>
  What the node answers: whether \<open>ethers.getContractAt\<close> yields a contract for the
  registry address, the hash of the submitted transaction or a rejection, and whether
  the wait for the transaction succeeds.
\<close>

record registry_node =
  getContractAt :: "string \<Rightarrow> error + unit"
  batchRegisterIdentity :: "registration \<Rightarrow> error + string"
  waitTx :: "string \<Rightarrow> error + unit"

record registration_run =
  lines :: "console_line list"
  submitted :: "registration list"
  result :: "error + unit"

definition parseUserWallet :: "env \<Rightarrow> error + string" where
  "parseUserWallet env =
     (case env ''USER_WALLET'' of
        None \<Rightarrow> Inl (Error (''User wallet address is required. Provide it as an environment variable:''
                 @ [CHR 0x0A] @ ''  USER_WALLET=<address> npx hardhat run scripts/registerIdentity.ts --network <network>''
                 @ [CHR 0x0A] @ ''  or add USER_WALLET=<address> to your .env file''))
      | Some envWallet \<Rightarrow>
          if envWallet \<noteq> [] then requireAddress ''User wallet address (from USER_WALLET env)'' envWallet
          else Inl (Error (''User wallet address is required. Provide it as an environment variable:''
                 @ [CHR 0x0A] @ ''  USER_WALLET=<address> npx hardhat run scripts/registerIdentity.ts --network <network>''
                 @ [CHR 0x0A] @ ''  or add USER_WALLET=<address> to your .env file'')))"

text \<open>\<open>process.env.AGENT_PRIVATE_KEY ?? process.env.PRIVATE_KEY\<close>\<close>

definition agentPrivateKey :: "env \<Rightarrow> string option" where
  "agentPrivateKey env =
     (case env ''AGENT_PRIVATE_KEY'' of Some k \<Rightarrow> Some k | None \<Rightarrow> env ''PRIVATE_KEY'')"

text \<open>The inputs of the registration: everything \<open>main\<close> checks before it builds the agent.\<close>

record registration_inputs =
  IDENTITY_REGISTRY_ADDRESS :: string
  agentKey :: string
  USER_WALLET :: string
  USER_IDENTITY_ADDRESS :: string

definition readRegistration :: "env \<Rightarrow> error + registration_inputs" where
  "readRegistration env =
     (let reg = nullish (env ''IDENTITY_REGISTRY_ADDRESS'') ''0x51991f45EA1475C4C0eD37a9f615041a3b0bCc6C''
      in case agentPrivateKey env of
           None \<Rightarrow> Inl (Error ''Missing AGENT_PRIVATE_KEY (preferred) or PRIVATE_KEY in environment.'')
         | Some k \<Rightarrow>
             if k = [] then Inl (Error ''Missing AGENT_PRIVATE_KEY (preferred) or PRIVATE_KEY in environment.'')
             else andThen (parseUserWallet env) (\<lambda>w.
               (case env ''USER_IDENTITY_ADDRESS'' of
                  None \<Rightarrow> Inl (Error (''Missing USER_IDENTITY_ADDRESS in environment. Provide the new ''
                                    @ ''Identity Contract Address from the first script.''))
                | Some i \<Rightarrow>
                    if i = [] then Inl (Error (''Missing USER_IDENTITY_ADDRESS in environment. Provide the new ''
                                             @ ''Identity Contract Address from the first script.''))
                    else if \<not> isAddress i
                      then Inl (Error ''Please paste the new Identity Contract Address from the first script.'')
                    else Inr \<lparr>IDENTITY_REGISTRY_ADDRESS = reg, agentKey = k, USER_WALLET = w,
                              USER_IDENTITY_ADDRESS = i\<rparr>)))"

definition registerIdentity_main ::
    "(string \<Rightarrow> bool) \<Rightarrow> env \<Rightarrow> registry_node \<Rightarrow> registration_run" where
  "registerIdentity_main validKey env N =
     (case readRegistration env of
        Inl e \<Rightarrow> \<lparr>lines = [], submitted = [], result = Inl e\<rparr>
      | Inr i \<Rightarrow>
     (case newWallet validKey (agentKey i) of
        Inl e \<Rightarrow> \<lparr>lines = [], submitted = [], result = Inl e\<rparr>
      | Inr ag \<Rightarrow>
     (case getContractAt N (IDENTITY_REGISTRY_ADDRESS i) of
        Inl e \<Rightarrow> \<lparr>lines = [], submitted = [], result = Inl e\<rparr>
      | Inr u \<Rightarrow>
     (let p = [Log (''Registering identity for user: '' @ USER_WALLET i),
               Log (''   OnchainID: '' @ USER_IDENTITY_ADDRESS i)];
          rq = \<lparr>registry = IDENTITY_REGISTRY_ADDRESS i, agent = ag,
                userAddresses = [USER_WALLET i], identities = [USER_IDENTITY_ADDRESS i],
                countries = [42]\<rparr>
      in case batchRegisterIdentity N rq of
           Inl e \<Rightarrow> \<lparr>lines = p, submitted = [rq], result = Inl e\<rparr>
         | Inr hash \<Rightarrow>
      (case waitTx N hash of
           Inl e \<Rightarrow> \<lparr>lines = p, submitted = [rq], result = Inl e\<rparr>
         | Inr u \<Rightarrow>
             \<lparr>lines = p @ [Log (''Transaction successful: '' @ hash),
                           Log (checkMark @ '' User has been successfully registered and whitelisted!'')],
              submitted = [rq], result = Inr ()\<rparr>)))))"

section \<open>Role resolution\<close>

datatype RoleKey = tokenIssuer | tokenAgent | tokenAdmin | claimIssuer

fun roleName :: "RoleKey \<Rightarrow> string" where
  "roleName tokenIssuer = ''tokenIssuer''"
| "roleName tokenAgent = ''tokenAgent''"
| "roleName tokenAdmin = ''tokenAdmin''"
| "roleName claimIssuer = ''claimIssuer''"

definition envKeyName :: "RoleKey \<Rightarrow> string" where
  "envKeyName role = ''TREX_'' @ toUpperCase (roleName role) @ ''_PRIVATE_KEY''"

definition fallbackWarning :: "RoleKey \<Rightarrow> string \<Rightarrow> console_line" where
  "fallbackWarning role deployerAddress =
     Warn (warningSign @ ''  No dedicated signer configured for '' @ roleName role
           @ ''. Falling back to deployer account ('' @ deployerAddress @ '').'')"

text \<open>
  \<open>signer.getAddress()\<close>: an account of the node knows its address; the address of a
  wallet is derived from its key (\<open>computeAddress\<close>, elliptic-curve arithmetic that is
  a parameter here).
\<close>

fun signerAddress :: "(string \<Rightarrow> string) \<Rightarrow> signer \<Rightarrow> string" where
  "signerAddress computeAddress (Account a) = a"
| "signerAddress computeAddress (Wallet k) = computeAddress k"

text \<open>
  \<open>resolveRoleSigner\<close> returns the signer, or the exception of the wallet constructor,
  together with the lines it printed. \<open>availableSigner\<close> is \<open>None\<close> for \<open>undefined\<close>.
\<close>

definition resolveRoleSigner ::
    "(string \<Rightarrow> bool) \<Rightarrow> (string \<Rightarrow> string) \<Rightarrow> env \<Rightarrow> RoleKey \<Rightarrow> signer option \<Rightarrow> signer
       \<Rightarrow> (error + signer) \<times> console_line list" where
  "resolveRoleSigner validKey computeAddress env role availableSigner deployer =
     (let envKeyValue = env (envKeyName role)
      in if envKeyValue \<noteq> None \<and> envKeyValue \<noteq> Some []
         then (newWallet validKey (the envKeyValue), [])
         else (case availableSigner of
                 Some sg \<Rightarrow> (Inr sg, [])
               | None \<Rightarrow>
                   (let deployerAddress = signerAddress computeAddress deployer
                    in (Inr deployer, [fallbackWarning role deployerAddress]))))"

text \<open>
  The start of \<open>deployTREXSuiteInfrastructure\<close>: without any signer the script throws;
  otherwise the first signer is the deployer and the four roles are resolved in turn
  against the signers at positions 1 to 4 (\<open>availableSigners[i]\<close> is \<open>undefined\<close> past
  the end of the array), an exception ending the sequence. The provider of a Hardhat
  run always exists, so the check for it never throws.
\<close>

definition available :: "signer list \<Rightarrow> nat \<Rightarrow> signer option" where
  "available availableSigners i =
     (if i < length availableSigners then Some (availableSigners ! i) else None)"

fun resolveAll ::
    "(string \<Rightarrow> bool) \<Rightarrow> (string \<Rightarrow> string) \<Rightarrow> env \<Rightarrow> signer list \<Rightarrow> signer
       \<Rightarrow> (RoleKey \<times> nat) list \<Rightarrow> (error + signer list) \<times> console_line list" where
  "resolveAll validKey computeAddress env availableSigners deployer [] = (Inr [], [])"
| "resolveAll validKey computeAddress env availableSigners deployer ((role, i) # rest) =
     (case resolveRoleSigner validKey computeAddress env role (available availableSigners i) deployer of
        (Inl e, p) \<Rightarrow> (Inl e, p)
      | (Inr sg, p) \<Rightarrow>
          (case resolveAll validKey computeAddress env availableSigners deployer rest of
             (Inl e, q) \<Rightarrow> (Inl e, p @ q)
           | (Inr sgs, q) \<Rightarrow> (Inr (sg # sgs), p @ q)))"

definition resolveRoles ::
    "(string \<Rightarrow> bool) \<Rightarrow> (string \<Rightarrow> string) \<Rightarrow> env \<Rightarrow> signer list
       \<Rightarrow> (error + signer list) \<times> console_line list" where
  "resolveRoles validKey computeAddress env availableSigners =
     (case availableSigners of
        [] \<Rightarrow> (Inl (Error ''No signer available in the current Hardhat network configuration.''), [])
      | deployer # others \<Rightarrow>
          resolveAll validKey computeAddress env availableSigners deployer
            [(tokenIssuer, 1), (tokenAgent, 2), (tokenAdmin, 3), (claimIssuer, 4)])"

section \<open>Sample inputs\<close>

text \<open>
  Concrete inputs on which the definitions are evaluated: an environment, a ledger with
  one signer whose factory knows no suite yet, and a receipt with one foreign log, one
  other factory event and the \<open>TREXSuiteDeployed\<close> event.
\<close>

text \<open>
  A salt wrapped in white space beyond ASCII: U+3000 and U+FEFF in front, a blank on
  either side of the name, U+2003 and U+2028 behind. And one made of white space only.
\<close>

definition wide_salt :: string where
  "wide_salt =
     [CHR 0xE3, CHR 0x80, CHR 0x80, CHR 0xEF, CHR 0xBB, CHR 0xBF] @ '' villa ''
     @ [CHR 0xE2, CHR 0x80, CHR 0x83, CHR 0xE2, CHR 0x80, CHR 0xA8]"

definition blank_salt :: string where
  "blank_salt = [CHR 0xE3, CHR 0x80, CHR 0x80, CHR 0xEF, CHR 0xBB, CHR 0xBF]"

definition sample_args :: EventArgs where
  "sample_args =
     \<lparr>named = [(''_token'', JString ''0x4444444444444444444444444444444444444444''),
               (''_ir'', JObject (Some ''0x5555555555555555555555555555555555555555''))],
      positional = [JString ''0x4444444444444444444444444444444444444444'',
                    JString ''0x5555555555555555555555555555555555555555'',
                    JString ''0x6666666666666666666666666666666666666666'',
                    JString ''0x7777777777777777777777777777777777777777'',
                    JString ''0x8888888888888888888888888888888888888888'',
                    JString ''0x9999999999999999999999999999999999999999'',
                    JObject None]\<rparr>"

definition sample_receipt :: receipt where
  "sample_receipt =
     \<lparr>blockNumber = 12, gasUsed = 345678,
      logs = [Undecodable,
              Decodes ''Deployed'' \<lparr>named = [], positional = [JString ''0x4444444444444444444444444444444444444444'']\<rparr>,
              Decodes ''TREXSuiteDeployed'' sample_args]\<rparr>"

definition sample_ledger :: ledger where
  "sample_ledger =
     \<lparr>signers = [''0x3333333333333333333333333333333333333333''],
      networkName = Some ''hardhat'',
      getCode = (\<lambda>a. Inr ''0x6080''),
      getToken = (\<lambda>s. Inr AddressZero),
      deployTREXSuite = (\<lambda>s t c. Inr ''0xabc''),
      wait = (\<lambda>h. Inr sample_receipt)\<rparr>"

definition sample_env :: env where
  "sample_env =
     [''TREX_FACTORY_ADDRESS'' \<mapsto> ''0x1111111111111111111111111111111111111111'',
      ''PROPERTY_OWNER_ADDRESS'' \<mapsto> ''0x2222222222222222222222222222222222222222'',
      ''PROPERTY_TOKEN_DECIMALS'' \<mapsto> '' 6 '',
      ''PROPERTY_TOKEN_SALT'' \<mapsto> wide_salt]"

definition sample_config :: config where
  "sample_config =
     \<lparr>factoryAddress = ''0x1111111111111111111111111111111111111111'',
      propertyTokenName = ''Luxury Villa A4'', propertyTokenSymbol = ''LVA1'',
      propertyTokenDecimals = 6,
      propertyOwnerAddress = ''0x2222222222222222222222222222222222222222'',
      deploymentSalt = ''villa''\<rparr>"

text \<open>The same ledger once the factory knows a suite for every salt, and once its query reverts.\<close>

definition existing_ledger :: ledger where
  "existing_ledger =
     sample_ledger\<lparr>getToken := \<lambda>s. Inr ''0x7777777777777777777777777777777777777777''\<rparr>"

definition reverting_ledger :: ledger where
  "reverting_ledger = sample_ledger\<lparr>getToken := \<lambda>s. Inl (Error ''call revert exception'')\<rparr>"

definition registration_env :: env where
  "registration_env =
     [''PRIVATE_KEY'' \<mapsto> ''0xa1'',
      ''USER_WALLET'' \<mapsto> ''0x1111111111111111111111111111111111111111'',
      ''USER_IDENTITY_ADDRESS'' \<mapsto> ''0x2222222222222222222222222222222222222222'',
      ''IDENTITY_REGISTRY_ADDRESS'' \<mapsto> ''0x3333333333333333333333333333333333333333'']"

definition registration_node :: registry_node where
  "registration_node =
     \<lparr>getContractAt = (\<lambda>a. Inr ()), batchRegisterIdentity = (\<lambda>r. Inr ''0xabc''),
      waitTx = (\<lambda>h. Inr ())\<rparr>"


text \<open>
  A node with three accounts, and an environment that gives the token agent a key of
  its own and leaves the key of the token administrator empty.
\<close>

definition roles_pool :: "signer list" where
  "roles_pool = [Account ''0x1111111111111111111111111111111111111111'',
                 Account ''0x2222222222222222222222222222222222222222'',
                 Account ''0x3333333333333333333333333333333333333333'']"

definition roles_env :: env where
  "roles_env = [''TREX_TOKENAGENT_PRIVATE_KEY'' \<mapsto> ''0xa1'',
                ''TREX_TOKENADMIN_PRIVATE_KEY'' \<mapsto> '''']"
section \<open>Properties of the address functions\<close>

lemma length_chi: "length (chi b) = 25"
  unfolding chi_def by simp

lemma length_iota: "length a = 25 \<Longrightarrow> length (iota r a) = 25"
  unfolding iota_def by simp

lemma length_keccak_round: "length (keccak_round a r) = 25"
  unfolding keccak_round_def by (rule length_iota) (rule length_chi)

lemma length_foldl_keccak_round:
  "length (foldl keccak_round a rs) = (if rs = [] then length a else 25)"
  by (induction rs arbitrary: a rule: rev_induct) (simp_all add: length_keccak_round)

lemma length_keccak_f: "length (keccak_f a) = 25"
proof -
  have "[0 ..< 24] \<noteq> ([] :: nat list)" by simp
  then show ?thesis
    unfolding keccak_f_def by (simp only: length_foldl_keccak_round if_False)
qed

lemma length_absorb: "length (absorb st b) = 25"
  unfolding absorb_def by (rule length_keccak_f)

lemma length_foldl_absorb:
  "length st = 25 \<Longrightarrow> length (foldl absorb st bs) = 25"
  by (induction bs arbitrary: st rule: rev_induct) (simp_all add: length_absorb)

lemma length_bytes_of_lane: "length (bytes_of_lane w) = 8"
  unfolding bytes_of_lane_def by simp

lemma length_concat_bytes: "length (concat (map bytes_of_lane st)) = 8 * length st"
  by (induction st) (simp_all add: length_bytes_of_lane)

lemma length_keccak256: "length (keccak256 m) = 32"
proof -
  have "length (foldl absorb (replicate 25 0) (chunks 136 (pad101 m))) = 25"
    by (rule length_foldl_absorb) simp
  then show ?thesis
    unfolding keccak256_def by (simp only: length_take length_concat_bytes)
qed

lemma length_nibbles: "length (nibbles bs) = 2 * length bs"
  unfolding nibbles_def by (induction bs) simp_all

lemma length_checksum_nibbles: "length (take 40 (nibbles (keccak256 m))) = 40"
  by (simp only: length_take length_nibbles length_keccak256)


lemma toUpperCase_char_other:
  "c \<notin> set ''abcdefghijklmnopqrstuvwxyz'' \<Longrightarrow> toUpperCase_char c = c"
proof -
  assume a: "c \<notin> set ''abcdefghijklmnopqrstuvwxyz''"
  have "map_of (zip ''abcdefghijklmnopqrstuvwxyz'' ''ABCDEFGHIJKLMNOPQRSTUVWXYZ'') c = None"
    by (subst map_of_zip_is_None) (simp, rule a)
  then show ?thesis unfolding toUpperCase_char_def by simp
qed

lemma toLowerCase_char_other:
  "c \<notin> set ''ABCDEFGHIJKLMNOPQRSTUVWXYZ'' \<Longrightarrow> toLowerCase_char c = c"
proof -
  assume a: "c \<notin> set ''ABCDEFGHIJKLMNOPQRSTUVWXYZ''"
  have "map_of (zip ''ABCDEFGHIJKLMNOPQRSTUVWXYZ'' ''abcdefghijklmnopqrstuvwxyz'') c = None"
    by (subst map_of_zip_is_None) (simp, rule a)
  then show ?thesis unfolding toLowerCase_char_def by simp
qed

lemma digit_not_lower: "isDigit c \<Longrightarrow> c \<notin> set ''abcdefghijklmnopqrstuvwxyz''"
  unfolding isDigit_def by auto

lemma digit_not_upper: "isDigit c \<Longrightarrow> c \<notin> set ''ABCDEFGHIJKLMNOPQRSTUVWXYZ''"
  unfolding isDigit_def by auto

lemma toUpperCase_char_digit: "isDigit c \<Longrightarrow> toUpperCase_char c = c"
  by (rule toUpperCase_char_other) (rule digit_not_lower)

lemma toLowerCase_char_digit: "isDigit c \<Longrightarrow> toLowerCase_char c = c"
  by (rule toLowerCase_char_other) (rule digit_not_upper)

lemma isDigit_isHexDigit: "isDigit c \<Longrightarrow> isHexDigit c"
  unfolding isDigit_def isHexDigit_def by auto

lemma isDigit_not_letter: "isDigit c \<Longrightarrow> c \<notin> set ''ABCDEF'' \<and> c \<notin> set ''abcdef''"
  unfolding isDigit_def by auto

lemma map_checksumCase_digits:
  "list_all isDigit ds \<Longrightarrow> length ds \<le> length ns \<Longrightarrow> map2 checksumCase ds ns = ds"
proof (induction ds arbitrary: ns)
  case Nil
  then show ?case by simp
next
  case (Cons d ds)
  then obtain n ns' where "ns = n # ns'" by (cases ns) auto
  with Cons show ?case by (simp add: toUpperCase_char_digit checksumCase_def)
qed

lemma toLowerCase_digits: "list_all isDigit ds \<Longrightarrow> toLowerCase ds = ds"
  by (induction ds) (simp_all add: toLowerCase_def toLowerCase_char_digit)

lemma getChecksumAddress_eq:
  "getChecksumAddress a =
     (if \<not> isHexString20 a then None
      else Some (''0x'' @ map2 checksumCase (drop 2 (toLowerCase a))
                   (take 40 (nibbles (keccak256 (map of_char (drop 2 (toLowerCase a))))))))"
  unfolding getChecksumAddress_def Let_def by (rule refl)

lemma getChecksumAddress_digits:
  assumes "length ds = 40" "list_all isDigit ds"
  shows "getChecksumAddress (''0x'' @ ds) = Some (''0x'' @ ds)"
proof -
  have hex: "isHexString20 (''0x'' @ ds)"
    using assms by (auto simp: isHexString20_def list_all_iff isDigit_isHexDigit)
  have "toLowerCase (''0x'' @ ds) = ''0x'' @ ds"
    using toLowerCase_digits[OF assms(2)]
    by (simp add: toLowerCase_def toLowerCase_char_def)
  then have low: "drop 2 (toLowerCase (''0x'' @ ds)) = ds" by simp
  have "map2 checksumCase ds (take 40 (nibbles (keccak256 (map of_char ds)))) = ds"
    by (rule map_checksumCase_digits[OF assms(2)])
       (simp only: length_checksum_nibbles assms(1) order_refl)
  then show ?thesis
    unfolding getChecksumAddress_eq low using hex by simp
qed

lemma mixedCase_digits:
  assumes "list_all isDigit ds"
  shows "\<not> mixedCase (''0x'' @ ds)"
proof -
  have "c \<notin> set ''ABCDEF'' \<and> c \<notin> set ''abcdef''" if "c \<in> set (''0x'' @ ds)" for c
    using that assms isDigit_not_letter by (auto simp: list_all_iff)
  then show ?thesis
    unfolding mixedCase_def by (metis nth_mem)
qed

lemma getAddress_digits:
  assumes "length ds = 40" "list_all isDigit ds"
  shows "getAddress (''0x'' @ ds) = Some (''0x'' @ ds)"
proof -
  have hex: "isHexString20 (''0x'' @ ds)"
    using assms by (auto simp: isHexString20_def list_all_iff isDigit_isHexDigit)
  show ?thesis
    unfolding getAddress_def Let_def
    using hex getChecksumAddress_digits[OF assms] mixedCase_digits[OF assms(2)]
    by simp
qed


lemma getAddress_ones:
  "getAddress ''0x1111111111111111111111111111111111111111''
     = Some ''0x1111111111111111111111111111111111111111''"
  using getAddress_digits[of "''1111111111111111111111111111111111111111''"]
  by (simp add: isDigit_def)



section \<open>Properties of the property-token script\<close>

lemma andThen_Inr_iff: "andThen r f = Inr y \<longleftrightarrow> (\<exists>v. r = Inr v \<and> f v = Inr y)"
  by (cases r) (simp_all add: andThen_def)

lemma andThen_Inl_iff: "andThen r f = Inl e \<longleftrightarrow> r = Inl e \<or> (\<exists>v. r = Inr v \<and> f v = Inl e)"
  by (cases r) (auto simp: andThen_def)

lemma requireSalt_Inr: "requireSalt input = Inr s \<longleftrightarrow> s = trim input \<and> trim input \<noteq> []"
  by (auto simp: requireSalt_def Let_def)

lemma requireSalt_Inl: "requireSalt input = Inl e \<longleftrightarrow> trim input = [] \<and> e = Error ''Deployment salt cannot be empty''"
  by (auto simp: requireSalt_def Let_def)

lemma readConfig_salt:
  "readConfig env sg = Inr c \<Longrightarrow> deploymentSalt c = trim (saltInput env) \<and> trim (saltInput env) \<noteq> []"
  by (auto simp: readConfig_def Let_def andThen_Inr_iff requireSalt_Inr)

lemma readConfig_salt_empty:
  "trim (saltInput env) = [] \<Longrightarrow> \<exists>e. readConfig env sg = Inl e"
  by (cases "readConfig env sg") (auto dest: readConfig_salt)

lemma main_config_fails:
  "readConfig env (signers L) = Inl e \<Longrightarrow>
     main env L = stop [Log ''Preparing single property TREX deployment...''] [] e"
  by (simp add: main_def)

lemma requests_deploySuite:
  "x \<in> set (requests (deploySuite L c p r)) \<Longrightarrow>
     x \<in> set r \<or> (\<exists>td cd. x = DeployTREXSuite (deploymentSalt c) td cd) \<or> (\<exists>h. x = Wait h)"
  by (auto simp: deploySuite_def Let_def stop_def finish_def split: list.splits sum.splits)

lemma requests_main:
  "readConfig env (signers L) = Inr c \<Longrightarrow> x \<in> set (requests (main env L)) \<Longrightarrow>
     x = GetCode (factoryAddress c) \<or> x = GetToken (deploymentSalt c)
       \<or> (\<exists>td cd. x = DeployTREXSuite (deploymentSalt c) td cd) \<or> (\<exists>h. x = Wait h)"
  by (auto simp: main_def Let_def stop_def finish_def split: sum.splits if_splits
           dest!: requests_deploySuite)

lemma leading_zero_iff:
  assumes "[] \<notin> set codes"
  shows "leading codes s = 0 \<longleftrightarrow> (\<forall>w\<in>set codes. take (length w) s \<noteq> w)"
proof (cases "filter (\<lambda>w. take (length w) s = w) codes")
  case Nil
  then have "\<forall>w\<in>set codes. take (length w) s \<noteq> w"
    by (simp add: filter_empty_conv)
  with Nil show ?thesis by (simp add: leading_def)
next
  case (Cons w ws)
  then have "w \<in> set (filter (\<lambda>w. take (length w) s = w) codes)" by simp
  then have w: "w \<in> set codes" "take (length w) s = w" by simp_all
  with assms have "w \<noteq> []" by auto
  with Cons w show ?thesis by (auto simp: leading_def)
qed

lemma leading_code:
  assumes "leading codes s \<noteq> 0"
  shows "\<exists>w\<in>set codes. leading codes s = length w \<and> s = w @ drop (length w) s"
proof (cases "filter (\<lambda>w. take (length w) s = w) codes")
  case Nil
  with assms show ?thesis by (simp add: leading_def)
next
  case (Cons w ws)
  then have "w \<in> set (filter (\<lambda>w. take (length w) s = w) codes)" by simp
  then have w: "w \<in> set codes" "take (length w) s = w" by simp_all
  have "s = take (length w) s @ drop (length w) s" by simp
  with w have "s = w @ drop (length w) s" by simp
  with Cons w(1) show ?thesis by (auto simp: leading_def)
qed

lemma stripStart_decomp:
  "\<exists>ws. set ws \<subseteq> set codes \<and> s = concat ws @ stripStart codes s"
proof (induction codes s rule: stripStart.induct)
  case (1 codes)
  have "set [] \<subseteq> set codes \<and> [] = concat [] @ stripStart codes []" by simp
  then show ?case by blast
next
  case (2 codes c cs)
  show ?case
  proof (cases "leading codes (c # cs) = 0")
    case True
    then have "set [] \<subseteq> set codes \<and> c # cs = concat [] @ stripStart codes (c # cs)" by simp
    then show ?thesis by blast
  next
    case False
    from leading_code[OF False] obtain w where
      w: "w \<in> set codes" "leading codes (c # cs) = length w"
         "c # cs = w @ drop (length w) (c # cs)" by blast
    from False w(2) have "length w \<noteq> 0" by simp
    then have d: "drop (length w) (c # cs) = drop (length w - 1) cs"
      by (cases "length w") simp_all
    from 2[OF False] obtain ws where
      ws: "set ws \<subseteq> set codes"
          "drop (leading codes (c # cs) - 1) cs
             = concat ws @ stripStart codes (drop (leading codes (c # cs) - 1) cs)" by blast
    have s: "stripStart codes (c # cs) = stripStart codes (drop (length w - 1) cs)"
      using False w(2) by simp
    have "c # cs = w @ drop (length w - 1) cs" using w(3) d by simp
    also have "\<dots> = w @ concat ws @ stripStart codes (drop (length w - 1) cs)"
      using ws(2) w(2) by simp
    finally have "c # cs = concat (w # ws) @ stripStart codes (c # cs)" using s by simp
    moreover have "set (w # ws) \<subseteq> set codes" using w(1) ws(1) by simp
    ultimately show ?thesis by blast
  qed
qed

lemma leading_stripStart: "leading codes (stripStart codes s) = 0"
proof (induction codes s rule: stripStart.induct)
  case (1 codes)
  show ?case
  proof (cases "filter (\<lambda>w. take (length w) [] = w) codes")
    case Nil
    then show ?thesis by (simp add: leading_def)
  next
    case (Cons w ws)
    then have "w \<in> set (filter (\<lambda>w. take (length w) [] = w) codes)" by simp
    then have "w = []" by simp
    with Cons show ?thesis by (simp add: leading_def)
  qed
next
  case (2 codes c cs)
  then show ?case by (cases "leading codes (c # cs) = 0") simp_all
qed


lemma trim_decomp:
  "\<exists>ws1 ws2. set ws1 \<subseteq> set whiteSpace \<and> set ws2 \<subseteq> set whiteSpace
              \<and> s = concat ws1 @ trim s @ concat ws2"
proof -
  let ?t = "trimStart s"
  from stripStart_decomp[of whiteSpace s] obtain ws1 where
    1: "set ws1 \<subseteq> set whiteSpace" "s = concat ws1 @ ?t" by (auto simp: trimStart_def)
  from stripStart_decomp[of "map rev whiteSpace" "rev ?t"] obtain ws where
    2: "set ws \<subseteq> set (map rev whiteSpace)"
       "rev ?t = concat ws @ stripStart (map rev whiteSpace) (rev ?t)" by blast
  have "?t = rev (rev ?t)" by simp
  also have "\<dots> = rev (stripStart (map rev whiteSpace) (rev ?t)) @ rev (concat ws)"
    by (subst 2(2)) simp
  also have "\<dots> = trim s @ concat (map rev (rev ws))"
    by (simp add: trim_def trimEnd_def rev_concat)
  finally have 3: "?t = trim s @ concat (map rev (rev ws))" .
  have "set (map rev (rev ws)) \<subseteq> set whiteSpace"
  proof
    fix x assume "x \<in> set (map rev (rev ws))"
    then obtain y where y: "y \<in> set ws" "x = rev y" by auto
    with 2(1) obtain z where "z \<in> set whiteSpace" "y = rev z" by auto
    with y show "x \<in> set whiteSpace" by simp
  qed
  with 1 3 show ?thesis by metis
qed

lemma whiteSpace_nonempty: "[] \<notin> set whiteSpace"
  by (simp add: whiteSpace_def)

lemma trim_ends:
  assumes "w \<in> set whiteSpace"
  shows "(\<nexists>u. trim s = w @ u) \<and> (\<nexists>u. trim s = u @ w)"
proof -
  let ?t = "trimStart s"
  let ?r = "stripStart (map rev whiteSpace) (rev ?t)"
  have ne: "[] \<notin> set (map rev whiteSpace)" using whiteSpace_nonempty by auto
  have "leading (map rev whiteSpace) ?r = 0" by (rule leading_stripStart)
  then have "\<forall>v\<in>set (map rev whiteSpace). take (length v) ?r \<noteq> v"
    using leading_zero_iff[OF ne] by blast
  with assms have e: "take (length w) ?r \<noteq> rev w" by force
  have b: "\<nexists>u. trim s = u @ w"
  proof
    assume "\<exists>u. trim s = u @ w"
    then obtain u where "trim s = u @ w" by blast
    then have "?r = rev w @ rev u" by (simp add: trim_def trimEnd_def rev_swap)
    then have "take (length w) ?r = rev w" by simp
    with e show False by simp
  qed
  have "leading whiteSpace ?t = 0" unfolding trimStart_def by (rule leading_stripStart)
  then have "\<forall>v\<in>set whiteSpace. take (length v) ?t \<noteq> v"
    using leading_zero_iff[OF whiteSpace_nonempty] by blast
  with assms have f: "take (length w) ?t \<noteq> w" by blast
  from stripStart_decomp[of "map rev whiteSpace" "rev ?t"] obtain ws where
    "rev ?t = concat ws @ ?r" by blast
  then have "rev (rev ?t) = rev (concat ws @ ?r)" by simp
  then have t: "?t = trim s @ rev (concat ws)" by (simp add: trim_def trimEnd_def)
  have a: "\<nexists>u. trim s = w @ u"
  proof
    assume "\<exists>u. trim s = w @ u"
    then obtain u where "trim s = w @ u" by blast
    with t have "?t = w @ (u @ rev (concat ws))" by simp
    then have "take (length w) ?t = w" by simp
    with f show False by simp
  qed
  from a b show ?thesis by blast
qed

lemmas trim_eval = trim_def trimStart_def trimEnd_def leading_def whiteSpace_def

lemma trim_sample: "trim '' villa '' = ''villa''"
  by (simp add: trim_eval)

lemma trim_wide: "trim wide_salt = ''villa''"
  by (simp add: trim_eval wide_salt_def)

lemma trim_blank: "trim blank_salt = []"
  by (simp add: trim_eval blank_salt_def)

lemma trim_two_blanks: "trim ''  '' = []"
  by (simp add: trim_eval)

lemma getAddress_digit_string:
  "length ds = 40 \<and> list_all isDigit ds \<Longrightarrow>
     getAddress (CHR ''0'' # CHR ''x'' # ds) = Some (CHR ''0'' # CHR ''x'' # ds)"
  using getAddress_digits[of ds] by simp

lemmas number_eval = Number_def trim_eval strUnsignedDecimalLiteral_def
  nonDecimalLiteral_def isDigit_def parseRadix_def digitValue_def
  toDouble_def floorLog2_def roundHalfEven_def pow2_def pow10_def Let_def

lemma Number_sample: "Number '' 6 '' = Finite 6"
  by (simp add: number_eval)

lemma parseDecimals_sample: "parseDecimals (Some '' 6 '') 0 = Inr 6"
  by (simp add: parseDecimals_def nullish_def Number_sample)

lemma requireAddress_digit_string:
  "length ds = 40 \<and> list_all isDigit ds \<Longrightarrow>
     requireAddress l (CHR ''0'' # CHR ''x'' # ds) = Inr (CHR ''0'' # CHR ''x'' # ds)"
  by (simp add: requireAddress_def isAddress_def getAddress_digit_string)

lemma sample_ledger_simps:
  "signers sample_ledger = [''0x3333333333333333333333333333333333333333'']"
  "networkName sample_ledger = Some ''hardhat''"
  "getCode sample_ledger a = Inr ''0x6080''"
  "getToken sample_ledger s = Inr AddressZero"
  "deployTREXSuite sample_ledger s t c = Inr ''0xabc''"
  "wait sample_ledger h = Inr sample_receipt"
  by (simp_all add: sample_ledger_def)

lemma readConfig_sample:
  "readConfig sample_env [''0x3333333333333333333333333333333333333333''] =
     Inr sample_config"
  by (simp add: sample_config_def readConfig_def sample_env_def andThen_def nullish_def or_else_def
        tokenNameInput_def saltInput_def requireAddress_digit_string isDigit_def
        parseDecimals_sample ownerInput_def requireSalt_def trim_wide
        sample_ledger_simps)

lemma normalizeAddressArg_sample:
  "normalizeAddressArg sample_args ''_token'' 0 = Inr ''0x4444444444444444444444444444444444444444''"
  "normalizeAddressArg sample_args ''_ir'' 1 = Inr ''0x5555555555555555555555555555555555555555''"
  "normalizeAddressArg sample_args ''_irs'' 2 = Inr ''0x6666666666666666666666666666666666666666''"
  "normalizeAddressArg sample_args ''_tir'' 3 = Inr ''0x7777777777777777777777777777777777777777''"
  "normalizeAddressArg sample_args ''_ctr'' 4 = Inr ''0x8888888888888888888888888888888888888888''"
  "normalizeAddressArg sample_args ''_mc'' 5 = Inr ''0x9999999999999999999999999999999999999999''"
  by (simp_all add: normalizeAddressArg_def candidate_def byName_def byIndex_def sample_args_def
        AddressZero_def getAddress_digit_string isDigit_def)

lemma readSuite_sample:
  "readSuite sample_args =
     Inr \<lparr>token = ''0x4444444444444444444444444444444444444444'',
          identityRegistry = ''0x5555555555555555555555555555555555555555'',
          identityRegistryStorage = ''0x6666666666666666666666666666666666666666'',
          trustedIssuersRegistry = ''0x7777777777777777777777777777777777777777'',
          claimTopicsRegistry = ''0x8888888888888888888888888888888888888888'',
          modularCompliance = ''0x9999999999999999999999999999999999999999''\<rparr>"
  unfolding readSuite_def by (simp only: normalizeAddressArg_sample andThen_def sum.case)

lemma extract_sample:
  "extractSuiteAddresses (logs sample_receipt) =
     Inr \<lparr>token = ''0x4444444444444444444444444444444444444444'',
          identityRegistry = ''0x5555555555555555555555555555555555555555'',
          identityRegistryStorage = ''0x6666666666666666666666666666666666666666'',
          trustedIssuersRegistry = ''0x7777777777777777777777777777777777777777'',
          claimTopicsRegistry = ''0x8888888888888888888888888888888888888888'',
          modularCompliance = ''0x9999999999999999999999999999999999999999''\<rparr>"
  by (simp add: extractSuiteAddresses_def sample_receipt_def readSuite_sample)

lemma requests_sample:
  "requests (main sample_env sample_ledger) =
     [GetCode ''0x1111111111111111111111111111111111111111'', GetToken ''villa'',
      DeployTREXSuite ''villa''
        \<lparr>owner = ''0x2222222222222222222222222222222222222222'', name = ''Luxury Villa A4'',
         symbol = ''LVA1'', decimals = 6, irs = AddressZero, ONCHAINID = AddressZero,
         irAgents = [''0x3333333333333333333333333333333333333333'',
                     ''0x2222222222222222222222222222222222222222''],
         tokenAgents = [''0x3333333333333333333333333333333333333333'',
                        ''0x2222222222222222222222222222222222222222''],
         complianceModules = [], complianceSettings = []\<rparr>
        buildClaimDetails,
      Wait ''0xabc'']"
  by (simp add: main_def readConfig_sample ensureContractDeployed_def deploySuite_def
        extract_sample finish_def stop_def Let_def sample_ledger_simps sample_config_def)


lemma main_salt_empty:
  assumes "trim (saltInput env) = []"
  shows "requests (main env L) = [] \<and> (\<exists>e. outcome (main env L) = Inl e)"
proof -
  obtain e where "readConfig env (signers L) = Inl e"
    using readConfig_salt_empty[OF assms] by blast
  then show ?thesis by (simp add: main_config_fails stop_def)
qed

lemma main_requests_salt:
  assumes "x \<in> set (requests (main env L))"
  shows "(x = GetToken s \<longrightarrow> s = trim (saltInput env))
       \<and> (x = DeployTREXSuite s td cd \<longrightarrow> s = trim (saltInput env))"
proof (cases "readConfig env (signers L)")
  case (Inl e)
  with assms show ?thesis by (simp add: main_config_fails stop_def)
next
  case (Inr c)
  from requests_main[OF Inr assms] readConfig_salt[OF Inr] show ?thesis by auto
qed

text \<open>
  Claim C9. Whatever the salt input, \<open>requireSalt\<close> returns the input without the
  white space around it, or throws when nothing else is left: the input is the result
  between two runs of white-space characters, and the result neither starts nor ends
  with one. In \<open>main\<close> this trimmed salt is the one key handed to \<open>getToken\<close> and to
  \<open>deployTREXSuite\<close>, and a salt that trims to nothing ends the run with an error before
  any request is made.
\<close>

theorem salt_trimmed_before_use:
  "requireSalt input =
     (if trim input = [] then Inl (Error ''Deployment salt cannot be empty'')
      else Inr (trim input))
   \<and> (\<exists>ws1 ws2. set ws1 \<subseteq> set whiteSpace \<and> set ws2 \<subseteq> set whiteSpace
                  \<and> input = concat ws1 @ trim input @ concat ws2)
   \<and> (\<forall>w\<in>set whiteSpace. (\<nexists>u. trim input = w @ u) \<and> (\<nexists>u. trim input = u @ w))
   \<and> (trim (saltInput env) = [] \<longrightarrow>
         requests (main env L) = [] \<and> (\<exists>e. outcome (main env L) = Inl e))
   \<and> (\<forall>s. GetToken s \<in> set (requests (main env L)) \<longrightarrow> s = trim (saltInput env))
   \<and> (\<forall>s td cd. DeployTREXSuite s td cd \<in> set (requests (main env L))
         \<longrightarrow> s = trim (saltInput env))"
proof -
  have 1: "requireSalt input =
     (if trim input = [] then Inl (Error ''Deployment salt cannot be empty'')
      else Inr (trim input))"
    by (simp add: requireSalt_def Let_def)
  have 2: "\<forall>s. GetToken s \<in> set (requests (main env L)) \<longrightarrow> s = trim (saltInput env)"
    using main_requests_salt by blast
  have 3: "\<forall>s td cd. DeployTREXSuite s td cd \<in> set (requests (main env L))
         \<longrightarrow> s = trim (saltInput env)"
    using main_requests_salt by blast
  have 4: "\<forall>w\<in>set whiteSpace. (\<nexists>u. trim input = w @ u) \<and> (\<nexists>u. trim input = u @ w)"
    using trim_ends by blast
  show ?thesis
    using 1 2 3 4 trim_decomp[of input] main_salt_empty[of env L]
    by blast
qed

lemma saltInput_sample: "saltInput sample_env = wide_salt"
  by (simp add: saltInput_def sample_env_def nullish_def)

lemma saltInput_blank:
  "saltInput (sample_env(''PROPERTY_TOKEN_SALT'' \<mapsto> blank_salt)) = blank_salt"
  by (simp add: saltInput_def nullish_def)

text \<open>
  On the sample run, whose salt is wrapped in U+3000, U+FEFF, blanks, U+2003 and U+2028,
  and on the sample environment with a salt of U+3000 and U+FEFF only.
\<close>

theorem salt_trimmed_before_use_witness:
  "trim wide_salt = ''villa''
   \<and> requireSalt wide_salt = Inr ''villa''
   \<and> [CHR 0xE3, CHR 0x80, CHR 0x80] \<in> set whiteSpace
   \<and> (\<nexists>u. trim wide_salt = [CHR 0xE3, CHR 0x80, CHR 0x80] @ u)
   \<and> saltInput sample_env = wide_salt
   \<and> GetToken ''villa'' \<in> set (requests (main sample_env sample_ledger))
   \<and> trim blank_salt = []
   \<and> requireSalt blank_salt = Inl (Error ''Deployment salt cannot be empty'')
   \<and> saltInput (sample_env(''PROPERTY_TOKEN_SALT'' \<mapsto> blank_salt)) = blank_salt
   \<and> requests (main (sample_env(''PROPERTY_TOKEN_SALT'' \<mapsto> blank_salt)) sample_ledger) = []"
proof -
  let ?blank = "sample_env(''PROPERTY_TOKEN_SALT'' \<mapsto> blank_salt)"
  note wide = salt_trimmed_before_use[of wide_salt sample_env sample_ledger]
  note blank = salt_trimmed_before_use[of blank_salt ?blank sample_ledger]
  have 1: "requireSalt wide_salt = Inr ''villa''" using wide by (simp add: trim_wide)
  have m: "[CHR 0xE3, CHR 0x80, CHR 0x80] \<in> set whiteSpace" by (simp add: whiteSpace_def)
  have 2: "\<nexists>u. trim wide_salt = [CHR 0xE3, CHR 0x80, CHR 0x80] @ u" using wide m by blast
  have 3: "GetToken ''villa'' \<in> set (requests (main sample_env sample_ledger))"
    by (simp add: requests_sample)
  have 4: "requireSalt blank_salt = Inl (Error ''Deployment salt cannot be empty'')"
    using blank by (simp add: trim_blank)
  have "trim (saltInput ?blank) = []" by (simp add: saltInput_blank trim_blank)
  then have 5: "requests (main ?blank sample_ledger) = []" using blank by blast
  show ?thesis
    using 1 m 2 3 4 5 trim_wide trim_blank saltInput_sample saltInput_blank by blast
qed

subsection \<open>The duplicate check\<close>

lemma main_at_guard:
  assumes "reachesGuard env L c"
  shows "main env L =
     (case getToken L (deploymentSalt c) of
        Inr a \<Rightarrow>
          if a \<noteq> [] \<and> a \<noteq> AddressZero
          then finish [Log ''Preparing single property TREX deployment...'',
                       existingSuiteLine (deploymentSalt c) a]
                 [GetCode (factoryAddress c), GetToken (deploymentSalt c)]
          else deploySuite L c [Log ''Preparing single property TREX deployment...'']
                 [GetCode (factoryAddress c), GetToken (deploymentSalt c)]
      | Inl e \<Rightarrow>
          deploySuite L c [Log ''Preparing single property TREX deployment...'',
                           duplicateCheckWarning e]
            [GetCode (factoryAddress c), GetToken (deploymentSalt c)])"
  using assms
  by (simp add: reachesGuard_def main_def Let_def split: sum.splits)

lemma main_before_guard:
  assumes "\<not> (\<exists>c. reachesGuard env L c)"
  shows "\<exists>e. outcome (main env L) = Inl e \<and> (\<forall>s td cd. DeployTREXSuite s td cd \<notin> set (requests (main env L)))"
  using assms
  by (auto simp: reachesGuard_def main_def Let_def stop_def split: sum.splits)

lemma deploySuite_submits:
  assumes "signers L \<noteq> []"
  shows "\<exists>td cd. DeployTREXSuite (deploymentSalt c) td cd \<in> set (requests (deploySuite L c p r))"
  using assms
  by (auto simp: deploySuite_def Let_def stop_def finish_def split: list.splits sum.splits)

lemma deploySuite_printed:
  "x \<in> set p \<Longrightarrow> x \<in> set (printed (deploySuite L c p r))"
  by (auto simp: deploySuite_def Let_def stop_def finish_def split: list.splits sum.splits)

lemma deploySuite_getToken_irrelevant:
  "requests (deploySuite (L\<lparr>getToken := g\<rparr>) c p r) = requests (deploySuite L c p r)
   \<and> outcome (deploySuite (L\<lparr>getToken := g\<rparr>) c p r) = outcome (deploySuite L c p r)"
  by (auto simp: deploySuite_def Let_def stop_def finish_def split: list.splits sum.splits)

lemma deploySuite_prefix_irrelevant:
  "requests (deploySuite L c p r) = requests (deploySuite L c p' r)
   \<and> outcome (deploySuite L c p r) = outcome (deploySuite L c p' r)"
  by (auto simp: deploySuite_def Let_def stop_def finish_def split: list.splits sum.splits)


lemma ensureContractDeployed_getToken:
  "ensureContractDeployed (L\<lparr>getToken := g\<rparr>) a l = ensureContractDeployed L a l"
  by (auto simp: ensureContractDeployed_def split: sum.splits)

lemma reachesGuard_getToken:
  "reachesGuard env (L\<lparr>getToken := g\<rparr>) c = reachesGuard env L c"
  by (simp add: reachesGuard_def ensureContractDeployed_getToken)

text \<open>
  Claim C2. When the run reaches the duplicate check and the factory answers
  \<open>getToken\<close> for the salt with a non-empty address other than the zero address, \<open>main\<close>
  has made the two read requests only (no \<open>deployTREXSuite\<close>, no wait), it has printed
  its opening line and then the line that names the salt and the existing address, and
  it returns without an error. Conversely a \<open>deployTREXSuite\<close> request for a salt is
  made only when the factory answered the zero address for that salt or the query
  failed (an empty answer, which the decoder of an address never yields, would count as
  no deployment too).
\<close>

theorem existing_suite_aborts_deployment:
  "(reachesGuard env L c \<and> getToken L (deploymentSalt c) = Inr a \<and> a \<noteq> [] \<and> a \<noteq> AddressZero
      \<longrightarrow> requests (main env L) = [GetCode (factoryAddress c), GetToken (deploymentSalt c)]
          \<and> outcome (main env L) = Inr ()
          \<and> printed (main env L) =
              [Log ''Preparing single property TREX deployment...'',
               Log ([CHR 0xE2, CHR 0x9A, CHR 0xA0, CHR 0xEF, CHR 0xB8, CHR 0x8F]
                    @ ''  Detected existing TREX suite for salt '' @ [CHR 0x22]
                    @ deploymentSalt c @ [CHR 0x22] @ '': '' @ a
                    @ ''. Aborting to avoid duplicate deployment.'')])
   \<and> (\<forall>s td cd. DeployTREXSuite s td cd \<in> set (requests (main env L)) \<longrightarrow>
          getToken L s = Inr AddressZero \<or> getToken L s = Inr [] \<or> (\<exists>e. getToken L s = Inl e))"
proof (intro conjI impI allI)
  assume a: "reachesGuard env L c \<and> getToken L (deploymentSalt c) = Inr a \<and> a \<noteq> [] \<and> a \<noteq> AddressZero"
  then have g: "reachesGuard env L c" by simp
  have m: "main env L = finish [Log ''Preparing single property TREX deployment...'',
                       existingSuiteLine (deploymentSalt c) a]
                 [GetCode (factoryAddress c), GetToken (deploymentSalt c)]"
    using a by (simp add: main_at_guard[OF g])
  show "requests (main env L) = [GetCode (factoryAddress c), GetToken (deploymentSalt c)]"
    by (simp add: m finish_def)
  show "outcome (main env L) = Inr ()" by (simp add: m finish_def)
  show "printed (main env L) =
              [Log ''Preparing single property TREX deployment...'',
               Log ([CHR 0xE2, CHR 0x9A, CHR 0xA0, CHR 0xEF, CHR 0xB8, CHR 0x8F]
                    @ ''  Detected existing TREX suite for salt '' @ [CHR 0x22]
                    @ deploymentSalt c @ [CHR 0x22] @ '': '' @ a
                    @ ''. Aborting to avoid duplicate deployment.'')]"
    by (simp add: m finish_def existingSuiteLine_def warningSign_def)
next
  fix s td cd
  assume d: "DeployTREXSuite s td cd \<in> set (requests (main env L))"
  then obtain c where g: "reachesGuard env L c" using main_before_guard by blast
  then have rc: "readConfig env (signers L) = Inr c" by (simp add: reachesGuard_def)
  from requests_main[OF rc d] have s: "s = deploymentSalt c" by auto
  show "getToken L s = Inr AddressZero \<or> getToken L s = Inr [] \<or> (\<exists>e. getToken L s = Inl e)"
  proof (cases "getToken L s")
    case (Inl e)
    then show ?thesis by blast
  next
    case (Inr a)
    show ?thesis
    proof (rule ccontr)
      assume "\<not> ?thesis"
      with Inr have "a \<noteq> [] \<and> a \<noteq> AddressZero" by auto
      with Inr s have "main env L = finish [Log ''Preparing single property TREX deployment...'',
                       existingSuiteLine (deploymentSalt c) a]
                 [GetCode (factoryAddress c), GetToken (deploymentSalt c)]"
        by (simp add: main_at_guard[OF g])
      with d show False by (simp add: finish_def)
    qed
  qed
qed

text \<open>
  Claim C6. When \<open>getToken\<close> itself fails at the duplicate check, \<open>main\<close> prints, as a
  warning, the line that carries the message of the failure and goes on: requests and
  outcome are those of the run in which the factory answers the zero address, and
  with a deployer at hand the \<open>deployTREXSuite\<close> request for the salt is made.
\<close>

theorem failed_query_continues:
  "reachesGuard env L c \<and> getToken L (deploymentSalt c) = Inl e \<longrightarrow>
     Warn ([CHR 0xE2, CHR 0x9A, CHR 0xA0, CHR 0xEF, CHR 0xB8, CHR 0x8F]
           @ ''  Skipping duplicate deployment check because factory.getToken reverted: ''
           @ message e @ ''. Continuing with deployment.'') \<in> set (printed (main env L))
     \<and> requests (main env L) = requests (main env (L\<lparr>getToken := \<lambda>s. Inr AddressZero\<rparr>))
     \<and> outcome (main env L) = outcome (main env (L\<lparr>getToken := \<lambda>s. Inr AddressZero\<rparr>))
     \<and> (signers L \<noteq> [] \<longrightarrow>
          (\<exists>td cd. DeployTREXSuite (deploymentSalt c) td cd \<in> set (requests (main env L))))"
proof (intro impI)
  let ?L' = "L\<lparr>getToken := \<lambda>s. Inr AddressZero\<rparr>"
  let ?p0 = "[Log ''Preparing single property TREX deployment...'']"
  let ?r1 = "[GetCode (factoryAddress c), GetToken (deploymentSalt c)]"
  let ?w = "Warn ([CHR 0xE2, CHR 0x9A, CHR 0xA0, CHR 0xEF, CHR 0xB8, CHR 0x8F]
           @ ''  Skipping duplicate deployment check because factory.getToken reverted: ''
           @ message e @ ''. Continuing with deployment.'')"
  assume a: "reachesGuard env L c \<and> getToken L (deploymentSalt c) = Inl e"
  then have g: "reachesGuard env L c" by simp
  have w: "duplicateCheckWarning e = ?w"
    by (simp add: duplicateCheckWarning_def warningSign_def)
  have m: "main env L = deploySuite L c (?p0 @ [duplicateCheckWarning e]) ?r1"
    using a by (simp add: main_at_guard[OF g])
  from g have g': "reachesGuard env ?L' c"
    by (simp add: reachesGuard_getToken)
  have m': "main env ?L' = deploySuite ?L' c ?p0 ?r1"
    by (simp add: main_at_guard[OF g'])
  have "duplicateCheckWarning e \<in> set (printed (main env L))"
    unfolding m by (rule deploySuite_printed) simp
  then have 1: "?w \<in> set (printed (main env L))" unfolding w .
  have 2: "signers L \<noteq> [] \<longrightarrow>
      (\<exists>td cd. DeployTREXSuite (deploymentSalt c) td cd \<in> set (requests (main env L)))"
    unfolding m by (simp add: deploySuite_submits)
  have 3: "requests (main env L) = requests (main env ?L')"
    unfolding m m'
    using deploySuite_getToken_irrelevant[where L=L and c=c and p="?p0" and r="?r1"]
          deploySuite_prefix_irrelevant[of L c "?p0 @ [duplicateCheckWarning e]" ?r1 ?p0]
    by simp
  have 4: "outcome (main env L) = outcome (main env ?L')"
    unfolding m m'
    using deploySuite_getToken_irrelevant[where L=L and c=c and p="?p0" and r="?r1"]
          deploySuite_prefix_irrelevant[of L c "?p0 @ [duplicateCheckWarning e]" ?r1 ?p0]
    by simp
  show "?w \<in> set (printed (main env L))
     \<and> requests (main env L) = requests (main env ?L')
     \<and> outcome (main env L) = outcome (main env ?L')
     \<and> (signers L \<noteq> [] \<longrightarrow>
          (\<exists>td cd. DeployTREXSuite (deploymentSalt c) td cd \<in> set (requests (main env L))))"
    using 1 2 3 4 by blast
qed

lemma reachesGuard_sample: "reachesGuard sample_env sample_ledger sample_config"
  by (simp add: reachesGuard_def readConfig_sample sample_ledger_simps
        ensureContractDeployed_def)

lemma reachesGuard_existing: "reachesGuard sample_env existing_ledger sample_config"
  unfolding existing_ledger_def reachesGuard_getToken by (rule reachesGuard_sample)

lemma reachesGuard_reverting: "reachesGuard sample_env reverting_ledger sample_config"
  unfolding reverting_ledger_def reachesGuard_getToken by (rule reachesGuard_sample)

text \<open>
  On the sample environment: the ledger that knows a suite stops after the two reads
  and names salt and address, the ledger that answers the zero address goes on to deploy.
\<close>

theorem existing_suite_aborts_deployment_witness:
  "reachesGuard sample_env existing_ledger sample_config
   \<and> getToken existing_ledger ''villa'' = Inr ''0x7777777777777777777777777777777777777777''
   \<and> requests (main sample_env existing_ledger)
       = [GetCode ''0x1111111111111111111111111111111111111111'', GetToken ''villa'']
   \<and> outcome (main sample_env existing_ledger) = Inr ()
   \<and> printed (main sample_env existing_ledger)
       = [Log ''Preparing single property TREX deployment...'',
          Log ([CHR 0xE2, CHR 0x9A, CHR 0xA0, CHR 0xEF, CHR 0xB8, CHR 0x8F]
               @ ''  Detected existing TREX suite for salt '' @ [CHR 0x22] @ ''villa''
               @ [CHR 0x22] @ '': 0x7777777777777777777777777777777777777777''
               @ ''. Aborting to avoid duplicate deployment.'')]
   \<and> (\<exists>td cd. DeployTREXSuite ''villa'' td cd \<in> set (requests (main sample_env sample_ledger)))
   \<and> getToken sample_ledger ''villa'' = Inr AddressZero"
proof -
  have t: "getToken existing_ledger (deploymentSalt sample_config)
             = Inr ''0x7777777777777777777777777777777777777777''"
    by (simp add: existing_ledger_def)
  have ds: "deploymentSalt sample_config = ''villa''"
    and fa: "factoryAddress sample_config = ''0x1111111111111111111111111111111111111111''"
    by (simp_all add: sample_config_def)
  have n: "''0x7777777777777777777777777777777777777777'' \<noteq> []
           \<and> ''0x7777777777777777777777777777777777777777'' \<noteq> AddressZero"
    by (simp add: AddressZero_def)
  from existing_suite_aborts_deployment[of sample_env existing_ledger sample_config
         "''0x7777777777777777777777777777777777777777''"] reachesGuard_existing t n
  have "requests (main sample_env existing_ledger)
          = [GetCode (factoryAddress sample_config), GetToken (deploymentSalt sample_config)]
        \<and> outcome (main sample_env existing_ledger) = Inr ()
        \<and> printed (main sample_env existing_ledger) =
              [Log ''Preparing single property TREX deployment...'',
               Log ([CHR 0xE2, CHR 0x9A, CHR 0xA0, CHR 0xEF, CHR 0xB8, CHR 0x8F]
                    @ ''  Detected existing TREX suite for salt '' @ [CHR 0x22]
                    @ deploymentSalt sample_config @ [CHR 0x22] @ '': ''
                    @ ''0x7777777777777777777777777777777777777777''
                    @ ''. Aborting to avoid duplicate deployment.'')]"
    by blast
  then have 1: "requests (main sample_env existing_ledger)
          = [GetCode ''0x1111111111111111111111111111111111111111'', GetToken ''villa'']
        \<and> outcome (main sample_env existing_ledger) = Inr ()
        \<and> printed (main sample_env existing_ledger)
          = [Log ''Preparing single property TREX deployment...'',
             Log ([CHR 0xE2, CHR 0x9A, CHR 0xA0, CHR 0xEF, CHR 0xB8, CHR 0x8F]
               @ ''  Detected existing TREX suite for salt '' @ [CHR 0x22] @ ''villa''
               @ [CHR 0x22] @ '': 0x7777777777777777777777777777777777777777''
               @ ''. Aborting to avoid duplicate deployment.'')]"
    unfolding ds fa by simp
  have 2: "\<exists>td cd. DeployTREXSuite ''villa'' td cd
                    \<in> set (requests (main sample_env sample_ledger))"
    by (simp add: requests_sample)
  have 3: "getToken sample_ledger ''villa'' = Inr AddressZero"
    by (simp add: sample_ledger_simps)
  show ?thesis
    using 1 2 3 reachesGuard_existing t unfolding ds by blast
qed

text \<open>On the sample environment with a factory whose query reverts.\<close>

theorem failed_query_continues_witness:
  "reachesGuard sample_env reverting_ledger sample_config
   \<and> getToken reverting_ledger ''villa'' = Inl (Error ''call revert exception'')
   \<and> Warn ([CHR 0xE2, CHR 0x9A, CHR 0xA0, CHR 0xEF, CHR 0xB8, CHR 0x8F]
           @ ''  Skipping duplicate deployment check because factory.getToken reverted: ''
           @ ''call revert exception. Continuing with deployment.'')
        \<in> set (printed (main sample_env reverting_ledger))
   \<and> requests (main sample_env reverting_ledger) = requests (main sample_env sample_ledger)
   \<and> signers reverting_ledger \<noteq> []
   \<and> (\<exists>td cd. DeployTREXSuite ''villa'' td cd
          \<in> set (requests (main sample_env reverting_ledger)))"
proof -
  have t: "getToken reverting_ledger (deploymentSalt sample_config)
             = Inl (Error ''call revert exception'')"
    by (simp add: reverting_ledger_def)
  have ds: "deploymentSalt sample_config = ''villa''"
    by (simp add: sample_config_def)
  have s: "signers reverting_ledger \<noteq> []"
    by (simp add: reverting_ledger_def sample_ledger_simps)
  have u: "reverting_ledger\<lparr>getToken := \<lambda>s. Inr AddressZero\<rparr> = sample_ledger"
    by (simp add: reverting_ledger_def sample_ledger_def)
  from failed_query_continues[of sample_env reverting_ledger sample_config
         "Error ''call revert exception''"] reachesGuard_reverting t s
  have A: "Warn ([CHR 0xE2, CHR 0x9A, CHR 0xA0, CHR 0xEF, CHR 0xB8, CHR 0x8F]
           @ ''  Skipping duplicate deployment check because factory.getToken reverted: ''
           @ message (Error ''call revert exception'') @ ''. Continuing with deployment.'')
          \<in> set (printed (main sample_env reverting_ledger))"
    and B: "requests (main sample_env reverting_ledger)
          = requests (main sample_env (reverting_ledger\<lparr>getToken := \<lambda>s. Inr AddressZero\<rparr>))"
    and C: "\<exists>td cd. DeployTREXSuite (deploymentSalt sample_config) td cd
              \<in> set (requests (main sample_env reverting_ledger))"
    by blast+
  from A have 1: "Warn ([CHR 0xE2, CHR 0x9A, CHR 0xA0, CHR 0xEF, CHR 0xB8, CHR 0x8F]
           @ ''  Skipping duplicate deployment check because factory.getToken reverted: ''
           @ ''call revert exception. Continuing with deployment.'')
          \<in> set (printed (main sample_env reverting_ledger))"
    by simp
  from B have 2: "requests (main sample_env reverting_ledger)
                    = requests (main sample_env sample_ledger)"
    unfolding u .
  from C have 3: "\<exists>td cd. DeployTREXSuite ''villa'' td cd
              \<in> set (requests (main sample_env reverting_ledger))"
    unfolding ds .
  show ?thesis
    using 1 2 3 reachesGuard_reverting t[unfolded ds] s by blast
qed

section \<open>Properties of the identity-registration script\<close>

lemma submitted_registerIdentity:
  "rq \<in> set (submitted (registerIdentity_main validKey env N)) \<Longrightarrow>
     \<exists>i ag. readRegistration env = Inr i \<and> newWallet validKey (agentKey i) = Inr ag \<and>
       rq = \<lparr>registry = IDENTITY_REGISTRY_ADDRESS i, agent = ag,
              userAddresses = [USER_WALLET i], identities = [USER_IDENTITY_ADDRESS i],
              countries = [42]\<rparr>"
  by (auto simp: registerIdentity_main_def Let_def split: sum.splits)

lemma getAddress_Nil: "getAddress [] = None"
  by (simp add: getAddress_def isHexString20_def isIcap_def)

lemma readRegistration_valid:
  assumes "agentPrivateKey env = Some k" "k \<noteq> []"
    and "env ''USER_WALLET'' = Some w" "getAddress w = Some w'"
    and "env ''USER_IDENTITY_ADDRESS'' = Some i" "isAddress i"
  shows "readRegistration env =
           Inr \<lparr>IDENTITY_REGISTRY_ADDRESS =
                  nullish (env ''IDENTITY_REGISTRY_ADDRESS'')
                    ''0x51991f45EA1475C4C0eD37a9f615041a3b0bCc6C'',
                agentKey = k, USER_WALLET = w', USER_IDENTITY_ADDRESS = i\<rparr>"
proof -
  from assms(4) have w: "w \<noteq> []" using getAddress_Nil by auto
  from assms(6) have i: "i \<noteq> []" using getAddress_Nil by (auto simp: isAddress_def)
  have p: "parseUserWallet env = Inr w'"
    using assms(3,4) w by (simp add: parseUserWallet_def requireAddress_def isAddress_def)
  show ?thesis
    using assms(1,2,5,6) i p
    by (simp add: readRegistration_def Let_def andThen_def)
qed

text \<open>
  Claim C10. Whatever the environment and whatever the node answers, every
  \<open>batchRegisterIdentity\<close> call the identity-registration script submits carries one
  wallet, one identity and the country list \<open>[42]\<close>: no environment variable reaches
  the country code. With valid inputs (an agent key that is set, non-empty and accepted
  by \<open>ethers.Wallet\<close>, a \<open>USER_WALLET\<close> that \<open>getAddress\<close> normalises to \<open>w'\<close>, a
  \<open>USER_IDENTITY_ADDRESS\<close> that is an address, and a registry contract that resolves)
  the script submits exactly one call: to the configured registry (or the default
  one), signed by the agent wallet, for the pair \<open>(w', i)\<close> and country 42.
\<close>

theorem registration_country_fixed:
  "(\<forall>rq\<in>set (submitted (registerIdentity_main validKey env N)).
      countries rq = [42] \<and> length (userAddresses rq) = 1 \<and> length (identities rq) = 1)
   \<and> (agentPrivateKey env = Some k \<and> k \<noteq> [] \<and> validKey k
        \<and> env ''USER_WALLET'' = Some w \<and> getAddress w = Some w'
        \<and> env ''USER_IDENTITY_ADDRESS'' = Some i \<and> isAddress i
        \<and> getContractAt N (nullish (env ''IDENTITY_REGISTRY_ADDRESS'')
                               ''0x51991f45EA1475C4C0eD37a9f615041a3b0bCc6C'') = Inr ()
      \<longrightarrow> submitted (registerIdentity_main validKey env N) =
            [\<lparr>registry = nullish (env ''IDENTITY_REGISTRY_ADDRESS'')
                           ''0x51991f45EA1475C4C0eD37a9f615041a3b0bCc6C'',
              agent = Wallet k, userAddresses = [w'], identities = [i],
              countries = [42]\<rparr>])"
proof (rule conjI, rule ballI, goal_cases)
  case (1 rq)
  from submitted_registerIdentity[OF 1]
  show ?case
    by auto
next
  case 2
  show ?case
  proof (rule impI)
  assume a: "agentPrivateKey env = Some k \<and> k \<noteq> [] \<and> validKey k
        \<and> env ''USER_WALLET'' = Some w \<and> getAddress w = Some w'
        \<and> env ''USER_IDENTITY_ADDRESS'' = Some i \<and> isAddress i
        \<and> getContractAt N (nullish (env ''IDENTITY_REGISTRY_ADDRESS'')
                               ''0x51991f45EA1475C4C0eD37a9f615041a3b0bCc6C'') = Inr ()"
  then have r: "readRegistration env =
           Inr \<lparr>IDENTITY_REGISTRY_ADDRESS =
                  nullish (env ''IDENTITY_REGISTRY_ADDRESS'')
                    ''0x51991f45EA1475C4C0eD37a9f615041a3b0bCc6C'',
                agentKey = k, USER_WALLET = w', USER_IDENTITY_ADDRESS = i\<rparr>"
    using readRegistration_valid by blast
  show "submitted (registerIdentity_main validKey env N) =
            [\<lparr>registry = nullish (env ''IDENTITY_REGISTRY_ADDRESS'')
                           ''0x51991f45EA1475C4C0eD37a9f615041a3b0bCc6C'',
              agent = Wallet k, userAddresses = [w'], identities = [i],
              countries = [42]\<rparr>]"
    using a by (simp add: registerIdentity_main_def r newWallet_def Let_def split: sum.splits)
  qed
qed

text \<open>
  The sample environment: one call, for the sample wallet and identity, with country 42.
\<close>

theorem registration_country_fixed_witness:
  "agentPrivateKey registration_env = Some ''0xa1''
   \<and> getAddress ''0x1111111111111111111111111111111111111111''
       = Some ''0x1111111111111111111111111111111111111111''
   \<and> isAddress ''0x2222222222222222222222222222222222222222''
   \<and> submitted (registerIdentity_main (\<lambda>k. k = ''0xa1'') registration_env registration_node) =
        [\<lparr>registry = ''0x3333333333333333333333333333333333333333'',
          agent = Wallet ''0xa1'',
          userAddresses = [''0x1111111111111111111111111111111111111111''],
          identities = [''0x2222222222222222222222222222222222222222''],
          countries = [42]\<rparr>]
   \<and> (\<exists>rq. rq \<in> set (submitted (registerIdentity_main (\<lambda>k. k = ''0xa1'') registration_env
                                registration_node)) \<and> countries rq = [42])"
proof -
  have k: "agentPrivateKey registration_env = Some ''0xa1''"
    by (simp add: agentPrivateKey_def registration_env_def)
  have w: "getAddress ''0x1111111111111111111111111111111111111111''
       = Some ''0x1111111111111111111111111111111111111111''"
    by (simp add: getAddress_digit_string isDigit_def)
  have i: "isAddress ''0x2222222222222222222222222222222222222222''"
    by (simp add: isAddress_def getAddress_digit_string isDigit_def)
  have e: "registration_env ''USER_WALLET'' = Some ''0x1111111111111111111111111111111111111111''"
    "registration_env ''USER_IDENTITY_ADDRESS'' = Some ''0x2222222222222222222222222222222222222222''"
    "nullish (registration_env ''IDENTITY_REGISTRY_ADDRESS'')
         ''0x51991f45EA1475C4C0eD37a9f615041a3b0bCc6C''
       = ''0x3333333333333333333333333333333333333333''"
    by (simp_all add: registration_env_def nullish_def)
  have c: "getContractAt registration_node ''0x3333333333333333333333333333333333333333'' = Inr ()"
    by (simp add: registration_node_def)
  note inst = registration_country_fixed[of "\<lambda>k. k = ''0xa1''" registration_env
      registration_node "''0xa1''" "''0x1111111111111111111111111111111111111111''"
      "''0x1111111111111111111111111111111111111111''"
      "''0x2222222222222222222222222222222222222222''"]
  from inst k w i e c
  have s: "submitted (registerIdentity_main (\<lambda>k. k = ''0xa1'') registration_env registration_node) =
        [\<lparr>registry = ''0x3333333333333333333333333333333333333333'',
          agent = Wallet ''0xa1'',
          userAddresses = [''0x1111111111111111111111111111111111111111''],
          identities = [''0x2222222222222222222222222222222222222222''],
          countries = [42]\<rparr>]"
    by simp
  then have "\<exists>rq. rq \<in> set (submitted (registerIdentity_main (\<lambda>k. k = ''0xa1'') registration_env
                                registration_node)) \<and> countries rq = [42]"
    by simp
  with k w i s show ?thesis by blast
qed

section \<open>Properties of the role resolution\<close>

lemma envKeyName_simps:
  "envKeyName tokenIssuer = ''TREX_TOKENISSUER_PRIVATE_KEY''"
  "envKeyName tokenAgent = ''TREX_TOKENAGENT_PRIVATE_KEY''"
  "envKeyName tokenAdmin = ''TREX_TOKENADMIN_PRIVATE_KEY''"
  "envKeyName claimIssuer = ''TREX_CLAIMISSUER_PRIVATE_KEY''"
  by (simp_all add: envKeyName_def toUpperCase_def toUpperCase_char_def)

lemma roleName_inject: "roleName r = roleName r' \<longleftrightarrow> r = r'"
  by (cases r; cases r'; simp)

lemma fallbackWarning_inject:
  "fallbackWarning r d = fallbackWarning r' d \<longleftrightarrow> r = r'"
  by (cases r; cases r'; simp add: fallbackWarning_def)

lemma resolveRoleSigner_cases:
  "resolveRoleSigner validKey ca env role pooled deployer =
     (if env (envKeyName role) \<noteq> None \<and> env (envKeyName role) \<noteq> Some []
      then (newWallet validKey (the (env (envKeyName role))), [])
      else case pooled of Some sg \<Rightarrow> (Inr sg, [])
           | None \<Rightarrow> (Inr deployer, [fallbackWarning role (signerAddress ca deployer)]))"
  by (simp add: resolveRoleSigner_def Let_def split: option.splits)

lemma resolveAll_Inr:
  "resolveAll validKey ca env pool d roles = (Inr sgs, out) \<Longrightarrow>
     sgs = map (\<lambda>(role, i). if env (envKeyName role) \<noteq> None \<and> env (envKeyName role) \<noteq> Some []
                              then Wallet (the (env (envKeyName role)))
                              else case available pool i of Some sg \<Rightarrow> sg | None \<Rightarrow> d) roles
     \<and> out = concat (map (\<lambda>(role, i). if (env (envKeyName role) = None \<or> env (envKeyName role) = Some [])
                                           \<and> available pool i = None
                                        then [fallbackWarning role (signerAddress ca d)] else []) roles)"
proof (induction roles arbitrary: sgs out)
  case Nil
  then show ?case by simp
next
  case (Cons a roles)
  obtain role i where a: "a = (role, i)" by (cases a)
  obtain r1 p1 where r1: "resolveRoleSigner validKey ca env role (available pool i) d = (r1, p1)"
    by (cases "resolveRoleSigner validKey ca env role (available pool i) d")
  obtain r2 p2 where r2: "resolveAll validKey ca env pool d roles = (r2, p2)"
    by (cases "resolveAll validKey ca env pool d roles")
  from Cons.prems a r1 r2 obtain sg sgs' where
    s: "r1 = Inr sg" "r2 = Inr sgs'" "sgs = sg # sgs'" "out = p1 @ p2"
    by (auto split: sum.splits)
  from Cons.IH[of sgs' p2] r2 s(2) have ih:
    "sgs' = map (\<lambda>(role, i). if env (envKeyName role) \<noteq> None \<and> env (envKeyName role) \<noteq> Some []
                              then Wallet (the (env (envKeyName role)))
                              else case available pool i of Some sg \<Rightarrow> sg | None \<Rightarrow> d) roles"
    "p2 = concat (map (\<lambda>(role, i). if (env (envKeyName role) = None \<or> env (envKeyName role) = Some [])
                                           \<and> available pool i = None
                                        then [fallbackWarning role (signerAddress ca d)] else []) roles)"
    by simp_all
  from r1 s(1) have h: "sg = (if env (envKeyName role) \<noteq> None \<and> env (envKeyName role) \<noteq> Some []
                              then Wallet (the (env (envKeyName role)))
                              else case available pool i of Some sg \<Rightarrow> sg | None \<Rightarrow> d)"
    "p1 = (if (env (envKeyName role) = None \<or> env (envKeyName role) = Some [])
                                           \<and> available pool i = None
                                        then [fallbackWarning role (signerAddress ca d)] else [])"
    by (auto simp: resolveRoleSigner_cases newWallet_def split: if_splits option.splits)
  show ?case
    unfolding a s(3,4) using ih h by simp
qed


lemma fallbackWarning_text:
  "fallbackWarning role a =
     Warn ([CHR 0xE2, CHR 0x9A, CHR 0xA0, CHR 0xEF, CHR 0xB8, CHR 0x8F]
           @ ''  No dedicated signer configured for '' @ roleName role
           @ ''. Falling back to deployer account ('' @ a @ '').'')"
  by (simp add: fallbackWarning_def warningSign_def)

lemma resolveRoles_Inr:
  assumes "resolveRoles validKey ca env (d # others) = (Inr sgs, out)"
  shows "sgs = map (\<lambda>(role, i). if env (envKeyName role) \<noteq> None \<and> env (envKeyName role) \<noteq> Some []
                              then Wallet (the (env (envKeyName role)))
                              else case available (d # others) i of Some sg \<Rightarrow> sg | None \<Rightarrow> d)
                 [(tokenIssuer, 1), (tokenAgent, 2), (tokenAdmin, 3), (claimIssuer, 4)]"
    and "out = concat (map (\<lambda>(role, i). if (env (envKeyName role) = None \<or> env (envKeyName role) = Some [])
                                           \<and> available (d # others) i = None
                                        then [fallbackWarning role (signerAddress ca d)] else [])
                 [(tokenIssuer, 1), (tokenAgent, 2), (tokenAdmin, 3), (claimIssuer, 4)])"
  using resolveAll_Inr[of validKey ca env "d # others" d
          "[(tokenIssuer, 1), (tokenAgent, 2), (tokenAdmin, 3), (claimIssuer, 4)]" sgs out] assms
  unfolding resolveRoles_def by simp_all

lemma resolveRoles_count:
  assumes "resolveRoles validKey ca env (d # others) = (Inr sgs, out)"
  shows "length (filter (\<lambda>l. l = fallbackWarning role (signerAddress ca d)) out) =
           (if (env (envKeyName role) = None \<or> env (envKeyName role) = Some [])
               \<and> available (d # others)
                    (case role of tokenIssuer \<Rightarrow> 1 | tokenAgent \<Rightarrow> 2 | tokenAdmin \<Rightarrow> 3
                     | claimIssuer \<Rightarrow> 4) = None
            then 1 else 0)"
  unfolding resolveRoles_Inr(2)[OF assms]
  by (cases role; simp add: fallbackWarning_inject)

lemma resolveRoles_lines:
  assumes "resolveRoles validKey ca env (d # others) = (Inr sgs, out)"
  shows "\<forall>l\<in>set out. \<exists>role. l = fallbackWarning role (signerAddress ca d)"
  unfolding resolveRoles_Inr(2)[OF assms]
  by auto

text \<open>
  Claim C4. The environment variable of a role is \<open>TREX_<ROLE>_PRIVATE_KEY\<close> with the
  role's name in upper case. For every role, whatever the pooled signer and the
  deployer: a key that is set (and not the empty string, which JavaScript counts as
  absent) and that \<open>ethers.Wallet\<close> accepts gives the wallet of that key and prints
  nothing; a key that the wallet constructor refuses makes the resolution throw, with no
  fall-back; without a key a pooled signer is returned as it is and nothing is printed;
  without a key and without a pooled signer the deployer is returned and exactly one
  line is printed with \<open>console.warn\<close>, naming the role and the deployer's address.
  In the script the four roles are resolved against the signers at positions 1 to 4:
  without any signer it throws; when the four resolutions succeed, each signer follows
  the rule above, the warning of a role occurs once in the output when that role fell
  back to the deployer and not at all otherwise, and nothing else is printed.
\<close>

theorem role_signer_precedence:
  "envKeyName tokenIssuer = ''TREX_TOKENISSUER_PRIVATE_KEY''
   \<and> envKeyName tokenAgent = ''TREX_TOKENAGENT_PRIVATE_KEY''
   \<and> envKeyName tokenAdmin = ''TREX_TOKENADMIN_PRIVATE_KEY''
   \<and> envKeyName claimIssuer = ''TREX_CLAIMISSUER_PRIVATE_KEY''
   \<and> (env (envKeyName role) = Some k \<and> k \<noteq> [] \<and> validKey k \<longrightarrow>
        resolveRoleSigner validKey ca env role pooled deployer = (Inr (Wallet k), []))
   \<and> (env (envKeyName role) = Some k \<and> k \<noteq> [] \<and> \<not> validKey k \<longrightarrow>
        (\<exists>e. resolveRoleSigner validKey ca env role pooled deployer = (Inl e, [])))
   \<and> (env (envKeyName role) = None \<or> env (envKeyName role) = Some [] \<longrightarrow>
        resolveRoleSigner validKey ca env role (Some sg) deployer = (Inr sg, [])
        \<and> resolveRoleSigner validKey ca env role None deployer =
            (Inr deployer,
             [Warn ([CHR 0xE2, CHR 0x9A, CHR 0xA0, CHR 0xEF, CHR 0xB8, CHR 0x8F]
                 @ ''  No dedicated signer configured for '' @ roleName role
                 @ ''. Falling back to deployer account ('' @ signerAddress ca deployer @ '').'')]))
   \<and> resolveRoles validKey ca env [] =
        (Inl (Error ''No signer available in the current Hardhat network configuration.''), [])
   \<and> (resolveRoles validKey ca env (d # others) = (Inr sgs, out) \<longrightarrow>
        sgs = map (\<lambda>(r, i). if env (envKeyName r) \<noteq> None \<and> env (envKeyName r) \<noteq> Some []
                             then Wallet (the (env (envKeyName r)))
                             else case available (d # others) i of Some s \<Rightarrow> s | None \<Rightarrow> d)
                [(tokenIssuer, 1), (tokenAgent, 2), (tokenAdmin, 3), (claimIssuer, 4)]
        \<and> length (filter (\<lambda>l. l = Warn ([CHR 0xE2, CHR 0x9A, CHR 0xA0, CHR 0xEF, CHR 0xB8, CHR 0x8F]
                 @ ''  No dedicated signer configured for '' @ roleName role
                 @ ''. Falling back to deployer account ('' @ signerAddress ca d @ '').'')) out) =
            (if (env (envKeyName role) = None \<or> env (envKeyName role) = Some [])
                \<and> available (d # others)
                     (case role of tokenIssuer \<Rightarrow> 1 | tokenAgent \<Rightarrow> 2 | tokenAdmin \<Rightarrow> 3
                      | claimIssuer \<Rightarrow> 4) = None
             then 1 else 0)
        \<and> (\<forall>l\<in>set out. \<exists>r. l = Warn ([CHR 0xE2, CHR 0x9A, CHR 0xA0, CHR 0xEF, CHR 0xB8, CHR 0x8F]
                 @ ''  No dedicated signer configured for '' @ roleName r
                 @ ''. Falling back to deployer account ('' @ signerAddress ca d @ '').'')))"
proof -
  have 1: "env (envKeyName role) = Some k \<and> k \<noteq> [] \<and> validKey k \<longrightarrow>
        resolveRoleSigner validKey ca env role pooled deployer = (Inr (Wallet k), [])"
    by (simp add: resolveRoleSigner_cases newWallet_def)
  have 2: "env (envKeyName role) = Some k \<and> k \<noteq> [] \<and> \<not> validKey k \<longrightarrow>
        (\<exists>e. resolveRoleSigner validKey ca env role pooled deployer = (Inl e, []))"
    by (simp add: resolveRoleSigner_cases newWallet_def)
  have 3: "env (envKeyName role) = None \<or> env (envKeyName role) = Some [] \<longrightarrow>
        resolveRoleSigner validKey ca env role (Some sg) deployer = (Inr sg, [])
        \<and> resolveRoleSigner validKey ca env role None deployer =
            (Inr deployer, [fallbackWarning role (signerAddress ca deployer)])"
    by (auto simp: resolveRoleSigner_cases)
  have 4: "resolveRoles validKey ca env [] =
        (Inl (Error ''No signer available in the current Hardhat network configuration.''), [])"
    by (simp add: resolveRoles_def)
  have 5: "resolveRoles validKey ca env (d # others) = (Inr sgs, out) \<longrightarrow>
        sgs = map (\<lambda>(r, i). if env (envKeyName r) \<noteq> None \<and> env (envKeyName r) \<noteq> Some []
                             then Wallet (the (env (envKeyName r)))
                             else case available (d # others) i of Some s \<Rightarrow> s | None \<Rightarrow> d)
                [(tokenIssuer, 1), (tokenAgent, 2), (tokenAdmin, 3), (claimIssuer, 4)]
        \<and> length (filter (\<lambda>l. l = fallbackWarning role (signerAddress ca d)) out) =
            (if (env (envKeyName role) = None \<or> env (envKeyName role) = Some [])
                \<and> available (d # others)
                     (case role of tokenIssuer \<Rightarrow> 1 | tokenAgent \<Rightarrow> 2 | tokenAdmin \<Rightarrow> 3
                      | claimIssuer \<Rightarrow> 4) = None
             then 1 else 0)
        \<and> (\<forall>l\<in>set out. \<exists>r. l = fallbackWarning r (signerAddress ca d))"
  proof (rule impI)
    assume a: "resolveRoles validKey ca env (d # others) = (Inr sgs, out)"
    show "sgs = map (\<lambda>(r, i). if env (envKeyName r) \<noteq> None \<and> env (envKeyName r) \<noteq> Some []
                             then Wallet (the (env (envKeyName r)))
                             else case available (d # others) i of Some s \<Rightarrow> s | None \<Rightarrow> d)
                [(tokenIssuer, 1), (tokenAgent, 2), (tokenAdmin, 3), (claimIssuer, 4)]
        \<and> length (filter (\<lambda>l. l = fallbackWarning role (signerAddress ca d)) out) =
            (if (env (envKeyName role) = None \<or> env (envKeyName role) = Some [])
                \<and> available (d # others)
                     (case role of tokenIssuer \<Rightarrow> 1 | tokenAgent \<Rightarrow> 2 | tokenAdmin \<Rightarrow> 3
                      | claimIssuer \<Rightarrow> 4) = None
             then 1 else 0)
        \<and> (\<forall>l\<in>set out. \<exists>r. l = fallbackWarning r (signerAddress ca d))"
      by (intro conjI, rule resolveRoles_Inr(1)[OF a], rule resolveRoles_count[OF a],
          rule resolveRoles_lines[OF a])
  qed
  show ?thesis
    by (intro conjI, rule envKeyName_simps(1), rule envKeyName_simps(2), rule envKeyName_simps(3),
        rule envKeyName_simps(4), rule 1, rule 2, rule 3[unfolded fallbackWarning_text], rule 4,
        rule 5[unfolded fallbackWarning_text])
qed


lemma roles_env_simps:
  "roles_env (envKeyName tokenIssuer) = None"
  "roles_env (envKeyName tokenAgent) = Some ''0xa1''"
  "roles_env (envKeyName tokenAdmin) = Some []"
  "roles_env (envKeyName claimIssuer) = None"
  by (simp_all add: roles_env_def envKeyName_simps)

lemma resolveRoles_sample:
  "resolveRoles (\<lambda>k. k = ''0xa1'') (\<lambda>k. ''0x4444444444444444444444444444444444444444'') roles_env roles_pool
       = (Inr [Account ''0x2222222222222222222222222222222222222222'', Wallet ''0xa1'', Account ''0x1111111111111111111111111111111111111111'', Account ''0x1111111111111111111111111111111111111111''],
         [Warn ([CHR 0xE2, CHR 0x9A, CHR 0xA0, CHR 0xEF, CHR 0xB8, CHR 0x8F]
            @ ''  No dedicated signer configured for tokenAdmin. Falling back to deployer account (0x1111111111111111111111111111111111111111).''),
          Warn ([CHR 0xE2, CHR 0x9A, CHR 0xA0, CHR 0xEF, CHR 0xB8, CHR 0x8F]
            @ ''  No dedicated signer configured for claimIssuer. Falling back to deployer account (0x1111111111111111111111111111111111111111).'')])"
  by (simp add: resolveRoles_def roles_pool_def resolveRoleSigner_cases roles_env_simps
        available_def newWallet_def fallbackWarning_text)

text \<open>
  A node with three accounts, a key for the token agent and an empty key for the token
  administrator: the agent is the wallet of its key although a third account exists,
  the issuer is the second account, and the administrator and the claim issuer fall
  back to the first account, each with one warning.
\<close>

theorem role_signer_precedence_witness:
  "resolveRoleSigner (\<lambda>k. k = ''0xa1'') (\<lambda>k. ''0x4444444444444444444444444444444444444444'') roles_env tokenAgent (Some (Account ''0x3333333333333333333333333333333333333333'')) (Account ''0x1111111111111111111111111111111111111111'')
       = (Inr (Wallet ''0xa1''), [])
   \<and> (\<exists>e. resolveRoleSigner (\<lambda>k. False) (\<lambda>k. ''0x4444444444444444444444444444444444444444'') roles_env tokenAgent (Some (Account ''0x3333333333333333333333333333333333333333'')) (Account ''0x1111111111111111111111111111111111111111'')
           = (Inl e, []))
   \<and> resolveRoleSigner (\<lambda>k. k = ''0xa1'') (\<lambda>k. ''0x4444444444444444444444444444444444444444'') roles_env tokenIssuer (Some (Account ''0x2222222222222222222222222222222222222222'')) (Account ''0x1111111111111111111111111111111111111111'')
       = (Inr (Account ''0x2222222222222222222222222222222222222222''), [])
   \<and> resolveRoleSigner (\<lambda>k. k = ''0xa1'') (\<lambda>k. ''0x4444444444444444444444444444444444444444'') roles_env tokenAdmin None (Account ''0x1111111111111111111111111111111111111111'')
       = (Inr (Account ''0x1111111111111111111111111111111111111111''),
          [Warn ([CHR 0xE2, CHR 0x9A, CHR 0xA0, CHR 0xEF, CHR 0xB8, CHR 0x8F]
            @ ''  No dedicated signer configured for tokenAdmin. Falling back to deployer account (0x1111111111111111111111111111111111111111).'')])
   \<and> resolveRoles (\<lambda>k. k = ''0xa1'') (\<lambda>k. ''0x4444444444444444444444444444444444444444'') roles_env roles_pool
       = (Inr [Account ''0x2222222222222222222222222222222222222222'', Wallet ''0xa1'', Account ''0x1111111111111111111111111111111111111111'', Account ''0x1111111111111111111111111111111111111111''],
         [Warn ([CHR 0xE2, CHR 0x9A, CHR 0xA0, CHR 0xEF, CHR 0xB8, CHR 0x8F]
            @ ''  No dedicated signer configured for tokenAdmin. Falling back to deployer account (0x1111111111111111111111111111111111111111).''),
          Warn ([CHR 0xE2, CHR 0x9A, CHR 0xA0, CHR 0xEF, CHR 0xB8, CHR 0x8F]
            @ ''  No dedicated signer configured for claimIssuer. Falling back to deployer account (0x1111111111111111111111111111111111111111).'')])
   \<and> length (filter (\<lambda>l. l = Warn ([CHR 0xE2, CHR 0x9A, CHR 0xA0, CHR 0xEF, CHR 0xB8, CHR 0x8F]
            @ ''  No dedicated signer configured for tokenAdmin. Falling back to deployer account (0x1111111111111111111111111111111111111111).''))
         (snd (resolveRoles (\<lambda>k. k = ''0xa1'') (\<lambda>k. ''0x4444444444444444444444444444444444444444'') roles_env roles_pool))) = 1
   \<and> length (filter (\<lambda>l. l = Warn ([CHR 0xE2, CHR 0x9A, CHR 0xA0, CHR 0xEF, CHR 0xB8, CHR 0x8F]
            @ ''  No dedicated signer configured for tokenAgent. Falling back to deployer account (0x1111111111111111111111111111111111111111).''))
         (snd (resolveRoles (\<lambda>k. k = ''0xa1'') (\<lambda>k. ''0x4444444444444444444444444444444444444444'') roles_env roles_pool))) = 0"
proof -
  note valid = role_signer_precedence[where k = "''0xa1''", THEN conjunct2, THEN conjunct2, THEN conjunct2,
      THEN conjunct2, THEN conjunct1, THEN mp]
  note invalid = role_signer_precedence[where k = "''0xa1''", THEN conjunct2, THEN conjunct2, THEN conjunct2,
      THEN conjunct2, THEN conjunct2, THEN conjunct1, THEN mp]
  note absent = role_signer_precedence[THEN conjunct2, THEN conjunct2, THEN conjunct2,
      THEN conjunct2, THEN conjunct2, THEN conjunct2, THEN conjunct1, THEN mp]
  have 1: "resolveRoleSigner (\<lambda>k. k = ''0xa1'') (\<lambda>k. ''0x4444444444444444444444444444444444444444'') roles_env tokenAgent (Some (Account ''0x3333333333333333333333333333333333333333'')) (Account ''0x1111111111111111111111111111111111111111'')
       = (Inr (Wallet ''0xa1''), [])"
    by (rule valid) (simp add: roles_env_simps)
  have 2: "(\<exists>e. resolveRoleSigner (\<lambda>k. False) (\<lambda>k. ''0x4444444444444444444444444444444444444444'') roles_env tokenAgent (Some (Account ''0x3333333333333333333333333333333333333333'')) (Account ''0x1111111111111111111111111111111111111111'')
           = (Inl e, []))"
    by (rule invalid) (simp add: roles_env_simps)
  have 3: "resolveRoleSigner (\<lambda>k. k = ''0xa1'') (\<lambda>k. ''0x4444444444444444444444444444444444444444'') roles_env tokenIssuer (Some (Account ''0x2222222222222222222222222222222222222222'')) (Account ''0x1111111111111111111111111111111111111111'')
       = (Inr (Account ''0x2222222222222222222222222222222222222222''), [])"
    by (rule absent[THEN conjunct1]) (simp add: roles_env_simps)
  have "roles_env (envKeyName tokenAdmin) = None \<or> roles_env (envKeyName tokenAdmin) = Some []"
    by (simp add: roles_env_simps)
  from role_signer_precedence[where env = roles_env and role = tokenAdmin
      and validKey = "(\<lambda>k. k = ''0xa1'')" and ca = "(\<lambda>k. ''0x4444444444444444444444444444444444444444'')"
      and deployer = "Account ''0x1111111111111111111111111111111111111111''", THEN conjunct2, THEN conjunct2, THEN conjunct2,
      THEN conjunct2, THEN conjunct2, THEN conjunct2, THEN conjunct1, THEN mp, OF this,
      THEN conjunct2]
  have 4: "resolveRoleSigner (\<lambda>k. k = ''0xa1'') (\<lambda>k. ''0x4444444444444444444444444444444444444444'') roles_env tokenAdmin None (Account ''0x1111111111111111111111111111111111111111'')
       = (Inr (Account ''0x1111111111111111111111111111111111111111''),
          [Warn ([CHR 0xE2, CHR 0x9A, CHR 0xA0, CHR 0xEF, CHR 0xB8, CHR 0x8F]
            @ ''  No dedicated signer configured for tokenAdmin. Falling back to deployer account (0x1111111111111111111111111111111111111111).'')])"
    by simp
  have h: "resolveRoles (\<lambda>k. k = ''0xa1'') (\<lambda>k. ''0x4444444444444444444444444444444444444444'') roles_env
             (Account ''0x1111111111111111111111111111111111111111'' # [Account ''0x2222222222222222222222222222222222222222'', Account ''0x3333333333333333333333333333333333333333'']) =
             (Inr [Account ''0x2222222222222222222222222222222222222222'', Wallet ''0xa1'', Account ''0x1111111111111111111111111111111111111111'', Account ''0x1111111111111111111111111111111111111111''],
              snd (resolveRoles (\<lambda>k. k = ''0xa1'') (\<lambda>k. ''0x4444444444444444444444444444444444444444'') roles_env roles_pool))"
    by (simp add: resolveRoles_sample roles_pool_def[symmetric])
  from role_signer_precedence[where role = tokenAdmin, THEN conjunct2, THEN conjunct2, THEN conjunct2,
      THEN conjunct2, THEN conjunct2, THEN conjunct2, THEN conjunct2, THEN conjunct2, THEN mp,
      OF h, THEN conjunct2, THEN conjunct1]
  have 6: "length (filter (\<lambda>l. l = Warn ([CHR 0xE2, CHR 0x9A, CHR 0xA0, CHR 0xEF, CHR 0xB8, CHR 0x8F]
            @ ''  No dedicated signer configured for tokenAdmin. Falling back to deployer account (0x1111111111111111111111111111111111111111).''))
         (snd (resolveRoles (\<lambda>k. k = ''0xa1'') (\<lambda>k. ''0x4444444444444444444444444444444444444444'') roles_env roles_pool))) = 1"
    by (simp add: roles_env_simps available_def)
  from role_signer_precedence[where role = tokenAgent, THEN conjunct2, THEN conjunct2, THEN conjunct2,
      THEN conjunct2, THEN conjunct2, THEN conjunct2, THEN conjunct2, THEN conjunct2, THEN mp,
      OF h, THEN conjunct2, THEN conjunct1]
  have 7: "length (filter (\<lambda>l. l = Warn ([CHR 0xE2, CHR 0x9A, CHR 0xA0, CHR 0xEF, CHR 0xB8, CHR 0x8F]
            @ ''  No dedicated signer configured for tokenAgent. Falling back to deployer account (0x1111111111111111111111111111111111111111).''))
         (snd (resolveRoles (\<lambda>k. k = ''0xa1'') (\<lambda>k. ''0x4444444444444444444444444444444444444444'') roles_env roles_pool))) = 0"
    by (simp add: roles_env_simps available_def)
  show ?thesis
    by (intro conjI, rule 1, rule 2, rule 3, rule 4, rule resolveRoles_sample, rule 6, rule 7)
qed

section \<open>Checksummed addresses\<close>



lemma lower_letters_fixed:
  "list_all (\<lambda>c. toLowerCase_char c \<notin> set ''ABCDEFGHIJKLMNOPQRSTUVWXYZ''
                  \<and> toLowerCase_char c \<noteq> CHR ''0'')
     ''ABCDEFGHIJKLMNOPQRSTUVWXYZ''"
  by (simp add: toLowerCase_char_def)

lemma toLowerCase_char_not_upper:
  "toLowerCase_char c \<notin> set ''ABCDEFGHIJKLMNOPQRSTUVWXYZ''"
proof (cases "c \<in> set ''ABCDEFGHIJKLMNOPQRSTUVWXYZ''")
  case True
  with lower_letters_fixed show ?thesis unfolding list_all_iff by blast
next
  case False
  then show ?thesis using toLowerCase_char_other[of c] by simp
qed

lemma toLowerCase_char_idem: "toLowerCase_char (toLowerCase_char c) = toLowerCase_char c"
  by (rule toLowerCase_char_other) (rule toLowerCase_char_not_upper)








lemma toLowerCase_idem: "toLowerCase (toLowerCase s) = toLowerCase s"
  by (simp add: toLowerCase_def toLowerCase_char_idem)



















section \<open>Properties of the event extraction\<close>












end
